theory Spec2Isabelle
  imports Complex_Main "HOL-Library.Word"
begin

section \<open>JavaScript strings\<close>

text \<open>
  A JavaScript string is a sequence of UTF-16 code units. String literals of
  \<^verbatim>\<open>popup.js\<close> that are plain ASCII are written with \<open>js\<close>.
\<close>

type_synonym codeunit = "16 word"
type_synonym jsstring = "codeunit list"

definition js :: "string \<Rightarrow> jsstring" where
  "js cs = map (\<lambda>c. of_nat (of_char c)) cs"

text \<open>
  \<^verbatim>\<open>String.prototype.trim\<close> removes the code units of WhiteSpace and
  LineTerminator from both ends: TAB, LF, VT, FF, CR, SPACE, NBSP, U+1680,
  U+2000 to U+200A, U+2028, U+2029, U+202F, U+205F, U+3000 and U+FEFF.
\<close>

definition is_space :: "codeunit \<Rightarrow> bool" where
  "is_space c \<longleftrightarrow>
     (0x09 \<le> c \<and> c \<le> 0x0D) \<or> c = 0x20 \<or> c = 0xA0 \<or> c = 0x1680 \<or>
     (0x2000 \<le> c \<and> c \<le> 0x200A) \<or> c = 0x2028 \<or> c = 0x2029 \<or>
     c = 0x202F \<or> c = 0x205F \<or> c = 0x3000 \<or> c = 0xFEFF"

definition trim :: "jsstring \<Rightarrow> jsstring" where
  "trim s = rev (dropWhile is_space (rev (dropWhile is_space s)))"

section \<open>Regular expressions\<close>

text \<open>
  The pattern of \<^verbatim>\<open>validateInput\<close> uses literals, character classes, grouping,
  \<^verbatim>\<open>?\<close>, \<^verbatim>\<open>*\<close> and \<^verbatim>\<open>+\<close> only, and is anchored at both ends with no flags.
  A character class is a list of inclusive code-unit ranges.
\<close>

datatype regex =
    Eps
  | Cls "(codeunit \<times> codeunit) list"
  | Seq regex regex
  | Alt regex regex
  | Star regex

definition Lit :: "char \<Rightarrow> regex" where
  "Lit c = Cls [(of_nat (of_char c), of_nat (of_char c))]"

definition Opt :: "regex \<Rightarrow> regex" where
  "Opt r = Alt r Eps"

definition Plus :: "regex \<Rightarrow> regex" where
  "Plus r = Seq r (Star r)"

fun in_class :: "(codeunit \<times> codeunit) list \<Rightarrow> codeunit \<Rightarrow> bool" where
  "in_class [] c = False"
| "in_class ((lo, hi) # rs) c = ((lo \<le> c \<and> c \<le> hi) \<or> in_class rs c)"

subsection \<open>The language of a regular expression\<close>

definition conc :: "jsstring set \<Rightarrow> jsstring set \<Rightarrow> jsstring set" where
  "conc A B = {u @ v | u v. u \<in> A \<and> v \<in> B}"

inductive_set star :: "jsstring set \<Rightarrow> jsstring set" for A :: "jsstring set" where
  star_nil: "[] \<in> star A"
| star_app: "u \<in> A \<Longrightarrow> v \<in> star A \<Longrightarrow> u @ v \<in> star A"

fun lang :: "regex \<Rightarrow> jsstring set" where
  "lang Eps = {[]}"
| "lang (Cls rs) = {[c] | c. in_class rs c}"
| "lang (Seq r1 r2) = conc (lang r1) (lang r2)"
| "lang (Alt r1 r2) = lang r1 \<union> lang r2"
| "lang (Star r) = star (lang r)"

subsection \<open>Matching\<close>

text \<open>
  \<^verbatim>\<open>RegExp.prototype.test\<close> on a pattern anchored by \<^verbatim>\<open>^\<close> and \<^verbatim>\<open>$\<close> (no
  multiline flag) succeeds when some way of matching consumes the whole input.
  The matcher decides this by derivatives: \<open>None\<close> stands for the expression
  that matches nothing.
\<close>

fun nullable :: "regex \<Rightarrow> bool" where
  "nullable Eps = True"
| "nullable (Cls rs) = False"
| "nullable (Seq r1 r2) = (nullable r1 \<and> nullable r2)"
| "nullable (Alt r1 r2) = (nullable r1 \<or> nullable r2)"
| "nullable (Star r) = True"

definition seq_opt :: "regex option \<Rightarrow> regex \<Rightarrow> regex option" where
  "seq_opt d r = (case d of None \<Rightarrow> None | Some r' \<Rightarrow> Some (Seq r' r))"

definition alt_opt :: "regex option \<Rightarrow> regex option \<Rightarrow> regex option" where
  "alt_opt d e =
     (case d of None \<Rightarrow> e
      | Some r \<Rightarrow> (case e of None \<Rightarrow> Some r | Some r' \<Rightarrow> Some (Alt r r')))"

fun deriv :: "codeunit \<Rightarrow> regex \<Rightarrow> regex option" where
  "deriv c Eps = None"
| "deriv c (Cls rs) = (if in_class rs c then Some Eps else None)"
| "deriv c (Seq r1 r2) =
     (if nullable r1 then alt_opt (seq_opt (deriv c r1) r2) (deriv c r2)
      else seq_opt (deriv c r1) r2)"
| "deriv c (Alt r1 r2) = alt_opt (deriv c r1) (deriv c r2)"
| "deriv c (Star r) = seq_opt (deriv c r) (Star r)"

fun matches :: "regex \<Rightarrow> jsstring \<Rightarrow> bool" where
  "matches r [] = nullable r"
| "matches r (c # cs) = (case deriv c r of None \<Rightarrow> False | Some r' \<Rightarrow> matches r' cs)"

subsection \<open>The URL pattern\<close>

text \<open>
  \<^verbatim>\<open>/^(https?:\/\/)?([\w-]+\.)+[\w-]+(\/[\w- ./?%&=]*)?$/\<close>.
  Without the \<^verbatim>\<open>i\<close> and \<^verbatim>\<open>u\<close> flags \<^verbatim>\<open>\w\<close> is \<^verbatim>\<open>[A-Za-z0-9_]\<close>, and a
  \<^verbatim>\<open>-\<close> next to a class escape inside brackets is a literal hyphen.
\<close>

definition word_ranges :: "(codeunit \<times> codeunit) list" where
  "word_ranges = [(0x41, 0x5A), (0x61, 0x7A), (0x30, 0x39), (0x5F, 0x5F)]"

definition word_dash :: regex where
  "word_dash = Cls (word_ranges @ [(0x2D, 0x2D)])"

definition path_char :: regex where
  "path_char = Cls (word_ranges @
     [(0x2D, 0x2D), (0x20, 0x20), (0x2E, 0x2E), (0x2F, 0x2F),
      (0x3F, 0x3F), (0x25, 0x25), (0x26, 0x26), (0x3D, 0x3D)])"

definition scheme_part :: regex where
  "scheme_part =
     Opt (Seq (Lit CHR ''h'') (Seq (Lit CHR ''t'') (Seq (Lit CHR ''t'') (Seq (Lit CHR ''p'')
       (Seq (Opt (Lit CHR ''s'')) (Seq (Lit CHR '':'') (Seq (Lit CHR ''/'') (Lit CHR ''/''))))))))"

definition url_pattern :: regex where
  "url_pattern =
     Seq scheme_part
       (Seq (Plus (Seq (Plus word_dash) (Lit CHR ''.'')))
         (Seq (Plus word_dash)
           (Opt (Seq (Lit CHR ''/'') (Star path_char)))))"

definition RegExp_test :: "regex \<Rightarrow> jsstring \<Rightarrow> bool" where
  "RegExp_test r s = matches r s"

text \<open>
  Line 90: \<^verbatim>\<open>url && /.../.test(url)\<close>, with \<open>url\<close> the trimmed text of the input
  field; a string is truthy when it is not empty.
\<close>

definition validate :: "jsstring \<Rightarrow> bool" where
  "validate url = (url \<noteq> [] \<and> RegExp_test url_pattern url)"

section \<open>JavaScript values\<close>

text \<open>
  The value of \<^verbatim>\<open>response.json()\<close> is any JSON value; reading a missing
  property gives \<^verbatim>\<open>undefined\<close>. An object is the list of its own properties.
  A JSON number is a double: \<open>JNum\<close> holds the value of a finite one as a
  rational (negative zero, which the popup prints like zero, is \<open>0\<close>), and
  \<open>JInf\<close> is what a literal beyond the range of doubles parses to, the flag
  telling the negative infinity.
\<close>

datatype jsval =
    JUndefined
  | JNull
  | JBool bool
  | JNum rat
  | JInf bool
  | JStr jsstring
  | JArr "jsval list"
  | JObj "(jsstring \<times> jsval) list"

datatype jsnum = Fin rat | NaN | Inf bool

datatype exn = Error jsstring | TypeError | SyntaxError | HostError jsstring

text \<open>
  Built-ins of the JavaScript engine that the popup relies on and that are
  tables or algorithms of the engine, not of \<^verbatim>\<open>popup.js\<close>: the numeric value
  of a string, the text of a number that is not an integer below \<open>10\<^sup>2\<^sup>1\<close>, the
  Unicode upper-case mapping of a code unit outside ASCII, and the quotient
  and the product of two doubles where the result has to be rounded.
\<close>

record runtime =
  StringToNumber :: "jsstring \<Rightarrow> jsnum"
  NumberToString :: "rat \<Rightarrow> jsstring"
  toUpperCase_unit :: "codeunit \<Rightarrow> jsstring"
  Number_divide :: "rat \<Rightarrow> rat \<Rightarrow> jsnum"
  Number_multiply :: "rat \<Rightarrow> rat \<Rightarrow> jsnum"

function digits :: "nat \<Rightarrow> jsstring" where
  "digits n = (if n < 10 then [of_nat (48 + n)]
               else digits (n div 10) @ [of_nat (48 + n mod 10)])"
  by pat_completeness auto
termination
  by (relation "measure (\<lambda>n. n)") auto

definition int_toString :: "int \<Rightarrow> jsstring" where
  "int_toString i = (if i < 0 then 0x2D # digits (nat (- i)) else digits (nat i))"

text \<open>
  The text of a number: an integer below \<open>10\<^sup>2\<^sup>1\<close> in absolute value is printed
  by its decimal digits; any other finite number (a fraction, or exponent
  notation from \<open>10\<^sup>2\<^sup>1\<close> on) is printed by the engine.
\<close>

definition Number_toString :: "runtime \<Rightarrow> jsnum \<Rightarrow> jsstring" where
  "Number_toString rt n =
     (case n of
        NaN \<Rightarrow> js ''NaN''
      | Inf neg \<Rightarrow> if neg then js ''-Infinity'' else js ''Infinity''
      | Fin x \<Rightarrow>
          if x = of_int \<lfloor>x\<rfloor> \<and> \<bar>x\<bar> < 10 ^ 21 then int_toString \<lfloor>x\<rfloor>
          else NumberToString rt x)"

fun join_comma :: "jsstring list \<Rightarrow> jsstring" where
  "join_comma [] = []"
| "join_comma [x] = x"
| "join_comma (x # y # ys) = x @ 0x2C # join_comma (y # ys)"

text \<open>
  Converting a value to a string, as a template literal and \<^verbatim>\<open>join\<close> do. An
  object parsed from JSON has no callable property of its own. Converting it
  calls \<^verbatim>\<open>toString\<close> and \<^verbatim>\<open>valueOf\<close>: the inherited \<^verbatim>\<open>toString\<close> gives
  \<open>[object Object]\<close>, the inherited \<^verbatim>\<open>valueOf\<close> gives the object back, which is
  no primitive. So an object with a property \<open>toString\<close> of its own, which
  hides the inherited one and cannot be called, ends in a TypeError, whichever
  of the two is tried first; every other object gives \<open>[object Object]\<close>. An
  array is converted by \<^verbatim>\<open>join\<close>: its elements from left to right, \<^verbatim>\<open>null\<close> and
  \<^verbatim>\<open>undefined\<close> as the empty string, the first exception ending it.
\<close>

fun ToString :: "runtime \<Rightarrow> jsval \<Rightarrow> exn + jsstring"
  and ToString_elements :: "runtime \<Rightarrow> jsval list \<Rightarrow> exn + jsstring list" where
  "ToString rt JUndefined = Inr (js ''undefined'')"
| "ToString rt JNull = Inr (js ''null'')"
| "ToString rt (JBool b) = Inr (if b then js ''true'' else js ''false'')"
| "ToString rt (JNum x) = Inr (Number_toString rt (Fin x))"
| "ToString rt (JInf neg) = Inr (Number_toString rt (Inf neg))"
| "ToString rt (JStr s) = Inr s"
| "ToString rt (JArr xs) =
     (case ToString_elements rt xs of
        Inl e \<Rightarrow> Inl e
      | Inr ss \<Rightarrow> Inr (join_comma ss))"
| "ToString rt (JObj kvs) =
     (if map_of kvs (js ''toString'') \<noteq> None then Inl TypeError
      else Inr (js ''[object Object]''))"
| "ToString_elements rt [] = Inr []"
| "ToString_elements rt (x # xs) =
     (case (if x = JUndefined \<or> x = JNull then Inr [] else ToString rt x) of
        Inl e \<Rightarrow> Inl e
      | Inr s \<Rightarrow>
          (case ToString_elements rt xs of
             Inl e \<Rightarrow> Inl e
           | Inr ss \<Rightarrow> Inr (s # ss)))"

text \<open>
  Converting a value to a number, as \<^verbatim>\<open>/\<close> does to its operand: an array or an
  object is converted to a string first, with the same exceptions, and that
  string to a number.
\<close>

definition ToNumber :: "runtime \<Rightarrow> jsval \<Rightarrow> exn + jsnum" where
  "ToNumber rt v =
     (case v of
        JUndefined \<Rightarrow> Inr NaN
      | JNull \<Rightarrow> Inr (Fin 0)
      | JBool b \<Rightarrow> Inr (Fin (if b then 1 else 0))
      | JNum x \<Rightarrow> Inr (Fin x)
      | JInf neg \<Rightarrow> Inr (Inf neg)
      | JStr s \<Rightarrow> Inr (StringToNumber rt s)
      | _ \<Rightarrow>
          (case ToString rt v of
             Inl e \<Rightarrow> Inl e
           | Inr s \<Rightarrow> Inr (StringToNumber rt s)))"

text \<open>
  \<^verbatim>\<open>n / 10\<close>, whose only use is as argument of \<^verbatim>\<open>Math.round\<close>. For a double up
  to \<open>2\<^sup>5\<^sup>3\<close> in absolute value the quotient is kept exact: rounding it to a
  double does not take it across a number half way between two integers, so
  \<^verbatim>\<open>Math.round\<close> gives the same integer for both. Beyond that the quotient is
  the engine's.
\<close>

definition divide_by_10 :: "runtime \<Rightarrow> jsnum \<Rightarrow> jsnum" where
  "divide_by_10 rt n =
     (case n of
        NaN \<Rightarrow> NaN
      | Inf neg \<Rightarrow> Inf neg
      | Fin x \<Rightarrow> if \<bar>x\<bar> \<le> 2 ^ 53 then Fin (x / 10) else Number_divide rt x 10)"

text \<open>
  \<^verbatim>\<open>n * 10\<close>: exact when the product is an integer up to \<open>2\<^sup>5\<^sup>3\<close> in absolute
  value, which is then a double; otherwise the engine's.
\<close>

definition times_10 :: "runtime \<Rightarrow> jsnum \<Rightarrow> jsnum" where
  "times_10 rt n =
     (case n of
        NaN \<Rightarrow> NaN
      | Inf neg \<Rightarrow> Inf neg
      | Fin x \<Rightarrow>
          if x = of_int \<lfloor>x\<rfloor> \<and> \<bar>x * 10\<bar> \<le> 2 ^ 53 then Fin (x * 10)
          else Number_multiply rt x 10)"

text \<open>
  \<^verbatim>\<open>Math.round\<close>: the nearest integer, a tie going towards \<open>+\<infinity>\<close>; a double too
  large to have a fraction is its own value.
\<close>

definition Math_round :: "jsnum \<Rightarrow> jsnum" where
  "Math_round n =
     (case n of
        NaN \<Rightarrow> NaN
      | Inf neg \<Rightarrow> Inf neg
      | Fin x \<Rightarrow> Fin (of_int \<lfloor>x + 1 / 2\<rfloor>))"

text \<open>
  Reading the property \<open>k\<close> of \<open>v\<close>, for the keys the popup reads (\<open>score\<close>,
  \<open>parameters\<close>, \<open>icon\<close>, \<open>name\<close>, \<open>status\<close>), none of which is inherited from a
  prototype: \<^verbatim>\<open>null\<close> and \<^verbatim>\<open>undefined\<close> throw a TypeError.
\<close>

definition getProp :: "jsval \<Rightarrow> jsstring \<Rightarrow> exn + jsval" where
  "getProp v k =
     (case v of
        JUndefined \<Rightarrow> Inl TypeError
      | JNull \<Rightarrow> Inl TypeError
      | JObj kvs \<Rightarrow> Inr (case map_of kvs k of None \<Rightarrow> JUndefined | Some x \<Rightarrow> x)
      | _ \<Rightarrow> Inr JUndefined)"

text \<open>
  \<^verbatim>\<open>toUpperCase\<close> is applied to \<^verbatim>\<open>charAt(0)\<close> only, a string of at most one code
  unit: ASCII letters are shifted, other ASCII and lone surrogates stay, the
  rest is the engine's Unicode mapping.
\<close>

definition toUpperCase1 :: "runtime \<Rightarrow> codeunit \<Rightarrow> jsstring" where
  "toUpperCase1 rt c =
     (if 0x61 \<le> c \<and> c \<le> 0x7A then [c - 0x20]
      else if c < 0x80 \<or> (0xD800 \<le> c \<and> c \<le> 0xDFFF) then [c]
      else toUpperCase_unit rt c)"

definition toUpperCase :: "runtime \<Rightarrow> jsstring \<Rightarrow> jsstring" where
  "toUpperCase rt s = concat (map (toUpperCase1 rt) s)"

definition charAt :: "jsstring \<Rightarrow> nat \<Rightarrow> jsstring" where
  "charAt s i = take 1 (drop i s)"

definition slice :: "jsstring \<Rightarrow> nat \<Rightarrow> jsstring" where
  "slice s i = drop i s"

section \<open>The popup\<close>

subsection \<open>State\<close>

text \<open>
  The DOM elements the constructor looks up (all assumed present), as far as
  the handlers read or write them, and the effects on the outside world:
  the messages passed to \<^verbatim>\<open>alert\<close>, the values passed to \<^verbatim>\<open>console.error\<close>,
  the calls of \<^verbatim>\<open>fetch\<close> and the callbacks handed to \<^verbatim>\<open>setTimeout\<close>, each in
  the order they happen. An element of the parameter list is kept as its class
  name and the markup assigned to its \<^verbatim>\<open>innerHTML\<close>.
\<close>

record element =
  className :: jsstring
  innerHTML :: jsstring

record request =
  endpoint :: jsstring
  http_method :: jsstring
  headers :: "(jsstring \<times> jsstring) list"
  body_stringify :: jsval

datatype callback = Call_handleAnalyze

record ui =
  urlInput_value :: jsstring
  analyzeBtn_disabled :: bool
  btnText_hidden :: bool
  loader_hidden :: bool
  resultsSection_hidden :: bool
  scoreValue_textContent :: jsstring
  progressFill_width :: jsstring
  parametersList :: "element list"
  body_collapsed :: bool
  body_expanded :: bool
  alerts :: "jsstring list"
  console_errors :: "exn list"
  requests :: "request list"
  timers :: "(nat \<times> callback) list"

subsection \<open>Small handlers\<close>

definition showError :: "jsstring \<Rightarrow> ui \<Rightarrow> ui" where
  "showError message s = s\<lparr>alerts := alerts s @ [message]\<rparr>"

definition showLoading :: "bool \<Rightarrow> ui \<Rightarrow> ui" where
  "showLoading isLoading s =
     (if isLoading
      then s\<lparr>analyzeBtn_disabled := True, btnText_hidden := True, loader_hidden := False\<rparr>
      else s\<lparr>analyzeBtn_disabled := False, btnText_hidden := False, loader_hidden := True\<rparr>)"

definition validateInput :: "ui \<Rightarrow> ui" where
  "validateInput s =
     (let url = trim (urlInput_value s);
          isValid = validate url
      in s\<lparr>analyzeBtn_disabled := \<not> isValid\<rparr>)"

text \<open>
  Typing into the field: the browser stores the new text and fires \<^verbatim>\<open>input\<close>,
  whose listener (line 30) is \<^verbatim>\<open>validateInput\<close>.
\<close>

definition input_event :: "jsstring \<Rightarrow> ui \<Rightarrow> ui" where
  "input_event v s = validateInput (s\<lparr>urlInput_value := v\<rparr>)"

definition expandPopup :: "ui \<Rightarrow> ui" where
  "expandPopup s = s\<lparr>body_collapsed := False, body_expanded := True\<rparr>"

subsection \<open>Rendering\<close>

definition nl :: jsstring where
  "nl = [0x0A]"

definition dq :: jsstring where
  "dq = [0x22]"

definition tpl_head :: jsstring where
  "tpl_head = nl @ js ''        <div class='' @ dq @ js ''parameter-name'' @ dq @ js ''>'' @
     nl @ js ''          <span>''"

definition tpl_icon_name :: jsstring where
  "tpl_icon_name = js ''</span>'' @ nl @ js ''          <span>''"

definition tpl_name_class :: jsstring where
  "tpl_name_class = js ''</span>'' @ nl @ js ''        </div>'' @ nl @
     js ''        <span class='' @ dq @ js ''parameter-status status-''"

definition tpl_class_label :: jsstring where
  "tpl_class_label = dq @ js ''>''"

definition tpl_tail :: jsstring where
  "tpl_tail = js ''</span>'' @ nl @ js ''      ''"

text \<open>
  The template literal of lines 108 to 114. Each substitution is evaluated and
  converted to a string before the next, from left to right, and the first
  exception ends it; \<^verbatim>\<open>param.status.charAt\<close> is a function only when the
  status is a string, every other value ends in a TypeError.
\<close>

definition param_html :: "runtime \<Rightarrow> jsval \<Rightarrow> exn + jsstring" where
  "param_html rt param =
     (case getProp param (js ''icon'') of
        Inl e \<Rightarrow> Inl e
      | Inr icon \<Rightarrow>
     (case ToString rt icon of
        Inl e \<Rightarrow> Inl e
      | Inr icon_text \<Rightarrow>
     (case getProp param (js ''name'') of
        Inl e \<Rightarrow> Inl e
      | Inr name \<Rightarrow>
     (case ToString rt name of
        Inl e \<Rightarrow> Inl e
      | Inr name_text \<Rightarrow>
     (case getProp param (js ''status'') of
        Inl e \<Rightarrow> Inl e
      | Inr st \<Rightarrow>
     (case ToString rt st of
        Inl e \<Rightarrow> Inl e
      | Inr status_text \<Rightarrow>
     (case st of
        JStr status \<Rightarrow>
          Inr (tpl_head @ icon_text @ tpl_icon_name @ name_text @
               tpl_name_class @ status_text @ tpl_class_label @
               (toUpperCase rt (charAt status 0) @ slice status 1) @ tpl_tail)
      | _ \<Rightarrow> Inl TypeError)))))))"

text \<open>The \<^verbatim>\<open>forEach\<close> loop: an exception in the callback ends the loop.\<close>

fun forEach_param :: "runtime \<Rightarrow> jsval list \<Rightarrow> ui \<Rightarrow> (exn + unit) \<times> ui" where
  "forEach_param rt [] s = (Inr (), s)"
| "forEach_param rt (param # params) s =
     (case param_html rt param of
        Inl e \<Rightarrow> (Inl e, s)
      | Inr html \<Rightarrow>
          forEach_param rt params
            (s\<lparr>parametersList := parametersList s @
                 [\<lparr>className = js ''parameter-item'', innerHTML = html\<rparr>]\<rparr>))"

text \<open>
  Assigning \<^verbatim>\<open>style.width\<close> takes effect when the text is a valid width: a
  percentage that is a finite number and not negative.
\<close>

definition set_width :: "runtime \<Rightarrow> jsnum \<Rightarrow> ui \<Rightarrow> ui" where
  "set_width rt percentage s =
     (case percentage of
        NaN \<Rightarrow> s
      | Inf neg \<Rightarrow> s
      | Fin x \<Rightarrow> if 0 \<le> x then s\<lparr>progressFill_width := Number_toString rt percentage @ js ''%''\<rparr>
                 else s)"

definition displayResults :: "runtime \<Rightarrow> jsval \<Rightarrow> ui \<Rightarrow> (exn + unit) \<times> ui" where
  "displayResults rt analysis s0 =
     (let s1 = s0\<lparr>resultsSection_hidden := False\<rparr> in
      case getProp analysis (js ''score'') of
        Inl e \<Rightarrow> (Inl e, s1)
      | Inr sc \<Rightarrow>
     (case ToNumber rt sc of
        Inl e \<Rightarrow> (Inl e, s1)
      | Inr n \<Rightarrow>
          let score = Math_round (divide_by_10 rt n);
              s2 = s1\<lparr>scoreValue_textContent := Number_toString rt score @ js ''/10''\<rparr>;
              percentage = times_10 rt score;
              s3 = set_width rt percentage s2;
              s4 = s3\<lparr>parametersList := []\<rparr>
          in case getProp analysis (js ''parameters'') of
               Inl e \<Rightarrow> (Inl e, s4)
             | Inr ps \<Rightarrow>
                 (case ps of
                    JArr params \<Rightarrow> forEach_param rt params s4
                  | _ \<Rightarrow> (Inl TypeError, s4))))"

subsection \<open>The analysis request\<close>

text \<open>
  What the network gives back to \<^verbatim>\<open>fetch\<close>: a rejection, or a response with its
  status and the outcomes of \<^verbatim>\<open>response.text()\<close> and \<^verbatim>\<open>response.json()\<close>.
\<close>

record response =
  status :: nat
  text_body :: "exn + jsstring"
  json_body :: "exn + jsval"

datatype fetch_result = Rejected exn | Resolved response

definition ok :: "response \<Rightarrow> bool" where
  "ok r = (200 \<le> status r \<and> status r \<le> 299)"

definition fetch_request :: "jsstring \<Rightarrow> request" where
  "fetch_request url =
     \<lparr>endpoint = js ''http://localhost:5000/predict'',
      http_method = js ''POST'',
      headers = [(js ''Content-Type'', js ''application/json'')],
      body_stringify = JObj [(js ''url'', JStr url)]\<rparr>"

text \<open>
  \<^verbatim>\<open>performAnalysis\<close> runs up to its first \<^verbatim>\<open>await\<close>, where \<^verbatim>\<open>fetch\<close> has been
  called, and goes on when the request is settled.
\<close>

definition performAnalysis_begin :: "jsstring \<Rightarrow> ui \<Rightarrow> request \<times> ui" where
  "performAnalysis_begin url s =
     (let req = fetch_request url in (req, s\<lparr>requests := requests s @ [req]\<rparr>))"

definition console_error :: "exn \<Rightarrow> ui \<Rightarrow> ui" where
  "console_error e s = s\<lparr>console_errors := console_errors s @ [e]\<rparr>"

definition performAnalysis_resume :: "fetch_result \<Rightarrow> ui \<Rightarrow> (exn + jsval) \<times> ui" where
  "performAnalysis_resume res s =
     (case res of
        Rejected e \<Rightarrow> (Inl e, console_error e s)
      | Resolved r \<Rightarrow>
          if \<not> ok r then
            (case text_body r of
               Inl e \<Rightarrow> (Inl e, console_error e s)
             | Inr body \<Rightarrow>
                 let e = Error (js ''HTTP error '' @ int_toString (int (status r)) @
                                js '': '' @ body)
                 in (Inl e, console_error e s))
          else
            (case json_body r of
               Inl e \<Rightarrow> (Inl e, console_error e s)
             | Inr analysis \<Rightarrow> (Inr analysis, s)))"

subsection \<open>handleAnalyze\<close>

text \<open>
  The part of \<^verbatim>\<open>handleAnalyze\<close> that runs at once (lines 43 to 51, up to the
  \<^verbatim>\<open>await\<close>) returns the request it has issued, if any.
\<close>

definition handleAnalyze_begin :: "ui \<Rightarrow> request option \<times> ui" where
  "handleAnalyze_begin s =
     (let url = trim (urlInput_value s) in
      if url = [] then (None, showError (js ''Please enter a URL'') s)
      else
        let s1 = showLoading True s;
            (req, s2) = performAnalysis_begin url s1
        in (Some req, s2))"

text \<open>The rest of the \<^verbatim>\<open>try\<close> block and the \<^verbatim>\<open>catch\<close> clause (lines 51 to 55).\<close>

definition handleAnalyze_try :: "runtime \<Rightarrow> fetch_result \<Rightarrow> ui \<Rightarrow> ui" where
  "handleAnalyze_try rt res s =
     (case performAnalysis_resume res s of
        (Inl e, s1) \<Rightarrow> showError (js ''Analysis failed. Please try again.'') s1
      | (Inr analysis, s1) \<Rightarrow>
          (case displayResults rt analysis s1 of
             (Inl e, s2) \<Rightarrow> showError (js ''Analysis failed. Please try again.'') s2
           | (Inr u, s2) \<Rightarrow> expandPopup s2))"

text \<open>The \<^verbatim>\<open>finally\<close> clause (line 57) closes the call.\<close>

definition handleAnalyze_resume :: "runtime \<Rightarrow> fetch_result \<Rightarrow> ui \<Rightarrow> ui" where
  "handleAnalyze_resume rt res s = showLoading False (handleAnalyze_try rt res s)"

text \<open>
  A whole call with nothing else happening while the request is pending;
  \<open>net\<close> is what the network answers to a request.
\<close>

definition handleAnalyze :: "runtime \<Rightarrow> (request \<Rightarrow> fetch_result) \<Rightarrow> ui \<Rightarrow> ui" where
  "handleAnalyze rt net s =
     (case handleAnalyze_begin s of
        (None, s1) \<Rightarrow> s1
      | (Some req, s1) \<Rightarrow> handleAnalyze_resume rt (net req) s1)"

text \<open>
  A click on the trigger (listener of line 27): a disabled button fires no
  \<^verbatim>\<open>click\<close> event, an enabled one starts \<^verbatim>\<open>handleAnalyze\<close>.
\<close>

definition analyzeBtn_click :: "ui \<Rightarrow> request option \<times> ui" where
  "analyzeBtn_click s = (if analyzeBtn_disabled s then (None, s) else handleAnalyze_begin s)"

subsection \<open>Auto-fill on load\<close>

text \<open>
  A tab is kept as its \<^verbatim>\<open>url\<close> property, absent when the extension may not
  read it. The preference store maps a key to the value saved under it.
\<close>

record tab =
  tab_url :: "jsstring option"

datatype tabs_result = Query_failed exn | Tabs "tab list"

type_synonym storage = "jsstring \<Rightarrow> jsval option"

text \<open>
  Lines 186 to 189, after \<^verbatim>\<open>chrome.tabs.query\<close> has settled: the result says
  whether the preference is then asked for (line 192).
\<close>

definition autoFillURL_tabs :: "tabs_result \<Rightarrow> ui \<Rightarrow> bool \<times> ui" where
  "autoFillURL_tabs q s =
     (case q of
        Query_failed e \<Rightarrow> (False, console_error e s)
      | Tabs [] \<Rightarrow> (False, s)
      | Tabs (t # ts) \<Rightarrow>
          (case tab_url t of
             None \<Rightarrow> (False, s)
           | Some u \<Rightarrow>
               if u = [] then (False, s)
               else (True, validateInput (s\<lparr>urlInput_value := u\<rparr>))))"

text \<open>The callback of \<^verbatim>\<open>chrome.storage.sync.get\<close> (lines 192 to 199).\<close>

definition autoFillURL_prefs :: "storage \<Rightarrow> ui \<Rightarrow> ui" where
  "autoFillURL_prefs store s =
     (let isEnabled = (store (js ''autoAnalyze'') \<noteq> Some (JBool False)) in
      if isEnabled \<and> trim (urlInput_value s) \<noteq> []
      then s\<lparr>timers := timers s @ [(500, Call_handleAnalyze)]\<rparr>
      else s)"

definition autoFillURL :: "tabs_result \<Rightarrow> storage \<Rightarrow> ui \<Rightarrow> ui" where
  "autoFillURL q store s =
     (case autoFillURL_tabs q s of
        (False, s1) \<Rightarrow> s1
      | (True, s1) \<Rightarrow> autoFillURL_prefs store s1)"

text \<open>A timer that has run out calls its callback and is gone.\<close>

definition fire_timer :: "runtime \<Rightarrow> (request \<Rightarrow> fetch_result) \<Rightarrow> ui \<Rightarrow> ui" where
  "fire_timer rt net s =
     (case timers s of
        [] \<Rightarrow> s
      | (d, Call_handleAnalyze) # ts \<Rightarrow> handleAnalyze rt net (s\<lparr>timers := ts\<rparr>))"

section \<open>Auxiliary notions\<close>

text \<open>The language of a derivative, for the correctness of the matcher.\<close>

definition lang_opt :: "regex option \<Rightarrow> jsstring set" where
  "lang_opt d = (case d of None \<Rightarrow> {} | Some r \<Rightarrow> lang r)"

text \<open>
  The state \<^verbatim>\<open>displayResults\<close> has reached when it turns to the parameters
  (lines 95 to 104), the score having been converted to the number \<open>n\<close>.
\<close>

definition scored :: "runtime \<Rightarrow> jsnum \<Rightarrow> ui \<Rightarrow> ui" where
  "scored rt n s =
     (set_width rt (times_10 rt (Math_round (divide_by_10 rt n)))
        (s\<lparr>resultsSection_hidden := False,
           scoreValue_textContent :=
             Number_toString rt (Math_round (divide_by_10 rt n)) @ js ''/10''\<rparr>))
       \<lparr>parametersList := []\<rparr>"

text \<open>
  A popup as it is when it opens: nothing typed, nothing shown, nothing sent.
  It is the starting point of the concrete runs below.
\<close>

definition popup_start :: ui where
  "popup_start =
     \<lparr>urlInput_value = [], analyzeBtn_disabled = False, btnText_hidden = False,
      loader_hidden = True, resultsSection_hidden = True, scoreValue_textContent = [],
      progressFill_width = [], parametersList = [], body_collapsed = True,
      body_expanded = False, alerts = [], console_errors = [], requests = [], timers = []\<rparr>"

text \<open>
  The response of the end-to-end example: a score of 65 and one parameter, whose
  icon is the padlock U+1F512, a surrogate pair in UTF-16.
\<close>

definition lock_icon :: jsstring where
  "lock_icon = [0xD83D, 0xDD12]"

definition https_param :: jsval where
  "https_param = JObj [(js ''icon'', JStr lock_icon), (js ''name'', JStr (js ''HTTPS'')),
     (js ''status'', JStr (js ''safe''))]"

definition mocked_response :: jsval where
  "mocked_response = JObj [(js ''score'', JNum 65), (js ''parameters'', JArr [https_param])]"

text \<open>Two answers of the server used in the concrete runs.\<close>

definition server_error :: response where
  "server_error = \<lparr>status = 500, text_body = Inr (js ''Internal Server Error''),
     json_body = Inl SyntaxError\<rparr>"

definition success_with :: "jsval \<Rightarrow> response" where
  "success_with v = \<lparr>status = 200, text_body = Inl TypeError, json_body = Inr v\<rparr>"

section \<open>The matcher decides the language of the pattern\<close>

lemma nullable_lang: "nullable r \<longleftrightarrow> [] \<in> lang r"
  by (induction r) (auto simp: conc_def intro: star.star_nil)

lemma lang_seq_opt: "lang_opt (seq_opt d r) = conc (lang_opt d) (lang r)"
  by (cases d) (simp_all add: lang_opt_def seq_opt_def conc_def)

lemma lang_alt_opt: "lang_opt (alt_opt d e) = lang_opt d \<union> lang_opt e"
  by (cases d; cases e) (simp_all add: lang_opt_def alt_opt_def)

lemma conc_tail:
  "{w. c # w \<in> conc A B} =
     conc {w. c # w \<in> A} B \<union> (if [] \<in> A then {w. c # w \<in> B} else {})"
proof (intro set_eqI iffI)
  fix w assume "w \<in> {w. c # w \<in> conc A B}"
  then obtain u v where uv: "c # w = u @ v" "u \<in> A" "v \<in> B"
    by (auto simp: conc_def)
  show "w \<in> conc {w. c # w \<in> A} B \<union> (if [] \<in> A then {w. c # w \<in> B} else {})"
  proof (cases u)
    case Nil
    with uv show ?thesis by auto
  next
    case (Cons a u')
    with uv have "a = c" "w = u' @ v" "c # u' \<in> A" by auto
    with uv(3) have "w \<in> conc {w. c # w \<in> A} B" by (auto simp: conc_def)
    then show ?thesis by simp
  qed
next
  fix w assume "w \<in> conc {w. c # w \<in> A} B \<union> (if [] \<in> A then {w. c # w \<in> B} else {})"
  then consider (l) "w \<in> conc {w. c # w \<in> A} B" | (r) "[] \<in> A" "c # w \<in> B"
    by (auto split: if_splits)
  then show "w \<in> {w. c # w \<in> conc A B}"
  proof cases
    case l
    then obtain u v where "w = u @ v" "c # u \<in> A" "v \<in> B" by (auto simp: conc_def)
    then have "c # w = (c # u) @ v \<and> c # u \<in> A \<and> v \<in> B" by simp
    then show ?thesis unfolding conc_def by blast
  next
    case r
    then have "c # w = [] @ (c # w) \<and> [] \<in> A \<and> c # w \<in> B" by simp
    then show ?thesis unfolding conc_def by blast
  qed
qed

lemma star_tail_sub:
  "x \<in> star A \<Longrightarrow> x = c # w \<Longrightarrow> w \<in> conc {w. c # w \<in> A} (star A)"
proof (induction arbitrary: w rule: star.induct)
  case star_nil
  then show ?case by simp
next
  case (star_app u v)
  show ?case
  proof (cases u)
    case Nil
    with star_app show ?thesis by simp
  next
    case (Cons a u')
    with star_app.prems have "a = c" "w = u' @ v" by auto
    with Cons star_app.hyps show ?thesis by (auto simp: conc_def)
  qed
qed

lemma star_tail: "{w. c # w \<in> star A} = conc {w. c # w \<in> A} (star A)"
proof (intro set_eqI iffI)
  fix w assume "w \<in> {w. c # w \<in> star A}"
  then show "w \<in> conc {w. c # w \<in> A} (star A)" using star_tail_sub by blast
next
  fix w assume "w \<in> conc {w. c # w \<in> A} (star A)"
  then obtain u v where "w = u @ v" "c # u \<in> A" "v \<in> star A" by (auto simp: conc_def)
  then have "(c # u) @ v \<in> star A" "c # w = (c # u) @ v"
    using star.star_app [of "c # u" A v] by simp_all
  then show "w \<in> {w. c # w \<in> star A}" by simp
qed

lemma lang_deriv: "lang_opt (deriv c r) = {w. c # w \<in> lang r}"
proof (induction r)
  case Eps
  then show ?case by (simp add: lang_opt_def)
next
  case (Cls rs)
  then show ?case by (auto simp: lang_opt_def)
next
  case (Seq r1 r2)
  then show ?case
    by (simp add: lang_seq_opt lang_alt_opt conc_tail nullable_lang)
next
  case (Alt r1 r2)
  then show ?case by (auto simp: lang_alt_opt)
next
  case (Star r)
  then show ?case by (simp add: lang_seq_opt star_tail)
qed

lemma matches_lang: "matches r s \<longleftrightarrow> s \<in> lang r"
proof (induction s arbitrary: r)
  case Nil
  then show ?case by (simp add: nullable_lang)
next
  case (Cons c cs)
  have "lang_opt (deriv c r) = {w. c # w \<in> lang r}" by (rule lang_deriv)
  with Cons show ?case by (cases "deriv c r") (auto simp: lang_opt_def)
qed

section \<open>Evaluation and frame lemmas\<close>

lemmas pattern_defs = validate_def RegExp_test_def url_pattern_def scheme_part_def word_dash_def
  path_char_def word_ranges_def Lit_def Opt_def Plus_def seq_opt_def alt_opt_def

lemma floor_rat_numeral: "\<lfloor>(numeral a :: rat) / numeral b\<rfloor> = numeral a div numeral b"
  using floor_divide_of_int_eq [of "numeral a" "numeral b", where ?'a = rat] by simp

lemma forEach_param_frame:
  "forEach_param rt ps s = (r, s') \<Longrightarrow>
     s' = s\<lparr>parametersList := parametersList s'\<rparr>"
proof (induction ps arbitrary: s)
  case Nil
  then show ?case by simp
next
  case (Cons p ps)
  show ?case
  proof (cases "param_html rt p")
    case (Inl e)
    with Cons.prems show ?thesis by simp
  next
    case (Inr html)
    let ?s1 = "s\<lparr>parametersList := parametersList s @
                 [\<lparr>className = js ''parameter-item'', innerHTML = html\<rparr>]\<rparr>"
    from Cons.prems Inr have "forEach_param rt ps ?s1 = (r, s')" by simp
    from Cons.IH [OF this] have "s' = ?s1\<lparr>parametersList := parametersList s'\<rparr>" .
    then show ?thesis by simp
  qed
qed

lemma forEach_param_all:
  "map (param_html rt) ps = map Inr htmls \<Longrightarrow>
   forEach_param rt ps s =
     (Inr (), s\<lparr>parametersList := parametersList s @
        map (\<lambda>h. \<lparr>className = js ''parameter-item'', innerHTML = h\<rparr>) htmls\<rparr>)"
proof (induction ps arbitrary: s htmls)
  case Nil
  then show ?case by simp
next
  case (Cons p ps)
  then obtain h hs where hs: "htmls = h # hs" "param_html rt p = Inr h"
    "map (param_html rt) ps = map Inr hs"
    by (cases htmls) auto
  show ?case using Cons.IH [OF hs(3)] hs by simp
qed

lemma scored_fields:
  "scoreValue_textContent (scored rt n s) =
     Number_toString rt (Math_round (divide_by_10 rt n)) @ js ''/10''"
  "progressFill_width (scored rt n s) =
     progressFill_width (set_width rt (times_10 rt (Math_round (divide_by_10 rt n))) s)"
  "parametersList (scored rt n s) = []"
  by (simp_all add: scored_def set_width_def split: jsnum.splits)

lemma scored_frame:
  "\<exists>t w. scored rt n s =
     s\<lparr>resultsSection_hidden := False, scoreValue_textContent := t,
       progressFill_width := w, parametersList := []\<rparr>"
proof -
  have "scored rt n s =
     s\<lparr>resultsSection_hidden := False,
       scoreValue_textContent := scoreValue_textContent (scored rt n s),
       progressFill_width := progressFill_width (scored rt n s), parametersList := []\<rparr>"
    by (simp add: scored_def set_width_def split: jsnum.splits)
  then show ?thesis by blast
qed

lemma displayResults_scored:
  assumes "getProp analysis (js ''score'') = Inr sc" and "ToNumber rt sc = Inr n"
  shows "displayResults rt analysis s =
     (case getProp analysis (js ''parameters'') of
        Inl e \<Rightarrow> (Inl e, scored rt n s)
      | Inr ps \<Rightarrow>
          (case ps of
             JArr params \<Rightarrow> forEach_param rt params (scored rt n s)
           | _ \<Rightarrow> (Inl TypeError, scored rt n s)))"
  using assms
  by (simp add: displayResults_def scored_def Let_def split: sum.splits jsval.splits)

lemma displayResults_score_throws:
  assumes "getProp analysis (js ''score'') = Inr sc" and "ToNumber rt sc = Inl e"
  shows "displayResults rt analysis s = (Inl e, s\<lparr>resultsSection_hidden := False\<rparr>)"
  using assms by (simp add: displayResults_def)

lemma displayResults_list_of_scored:
  assumes "getProp analysis (js ''score'') = Inr sc" and "ToNumber rt sc = Inr n"
  shows "\<exists>l. snd (displayResults rt analysis s) = (scored rt n s)\<lparr>parametersList := l\<rparr>"
proof -
  have id: "scored rt n s = (scored rt n s)\<lparr>parametersList := []\<rparr>"
    by (simp add: scored_def)
  show ?thesis
  proof (cases "getProp analysis (js ''parameters'')")
    case (Inl e)
    then have "snd (displayResults rt analysis s) = scored rt n s"
      by (simp add: displayResults_scored [OF assms])
    with id show ?thesis by metis
  next
    case (Inr ps)
    show ?thesis
    proof (cases "\<exists>params. ps = JArr params")
      case True
      then obtain params where "ps = JArr params" by blast
      with Inr have d: "displayResults rt analysis s = forEach_param rt params (scored rt n s)"
        by (simp add: displayResults_scored [OF assms])
      obtain r s' where f: "forEach_param rt params (scored rt n s) = (r, s')"
        by (cases "forEach_param rt params (scored rt n s)")
      from forEach_param_frame [OF f] d f show ?thesis by auto
    next
      case False
      with Inr have "snd (displayResults rt analysis s) = scored rt n s"
        by (cases ps) (auto simp: displayResults_scored [OF assms])
      with id show ?thesis by metis
    qed
  qed
qed

lemma displayResults_score_fields:
  assumes "getProp analysis (js ''score'') = Inr sc" and "ToNumber rt sc = Inr n"
  shows "scoreValue_textContent (snd (displayResults rt analysis s)) =
           Number_toString rt (Math_round (divide_by_10 rt n)) @ js ''/10''"
    and "progressFill_width (snd (displayResults rt analysis s)) =
           progressFill_width (set_width rt (times_10 rt (Math_round (divide_by_10 rt n))) s)"
proof -
  from displayResults_list_of_scored [OF assms, of s]
  obtain l where l: "snd (displayResults rt analysis s) = (scored rt n s)\<lparr>parametersList := l\<rparr>"
    by blast
  show "scoreValue_textContent (snd (displayResults rt analysis s)) =
           Number_toString rt (Math_round (divide_by_10 rt n)) @ js ''/10''"
    by (simp add: l scored_fields)
  show "progressFill_width (snd (displayResults rt analysis s)) =
           progressFill_width (set_width rt (times_10 rt (Math_round (divide_by_10 rt n))) s)"
    by (simp add: l scored_fields)
qed

lemma Number_toString_int:
  "\<bar>i\<bar> < 10 ^ 21 \<Longrightarrow> Number_toString rt (Fin (of_int i)) = int_toString i"
proof -
  assume "\<bar>i\<bar> < 10 ^ 21"
  then have "\<bar>(of_int i :: rat)\<bar> < 10 ^ 21"
    by (metis of_int_abs of_int_less_numeral_power_cancel_iff)
  then show ?thesis by (simp add: Number_toString_def)
qed

lemma displayResults_all_rendered:
  assumes sc: "getProp analysis (js ''score'') = Inr sc" and n: "ToNumber rt sc = Inr n"
    and ps: "getProp analysis (js ''parameters'') = Inr (JArr params)"
    and hs: "map (param_html rt) params = map Inr htmls"
  shows "fst (displayResults rt analysis s) = Inr ()"
    and "parametersList (snd (displayResults rt analysis s)) =
           map (\<lambda>h. \<lparr>className = js ''parameter-item'', innerHTML = h\<rparr>) htmls"
proof -
  show "fst (displayResults rt analysis s) = Inr ()"
    using ps by (simp add: displayResults_scored [OF sc n] forEach_param_all [OF hs])
  show "parametersList (snd (displayResults rt analysis s)) =
           map (\<lambda>h. \<lparr>className = js ''parameter-item'', innerHTML = h\<rparr>) htmls"
    using ps
    by (simp add: displayResults_scored [OF sc n] forEach_param_all [OF hs] scored_fields)
qed

lemma param_html_strings:
  assumes "getProp param (js ''icon'') = Inr (JStr icon)"
    and "getProp param (js ''name'') = Inr (JStr name)"
    and "getProp param (js ''status'') = Inr (JStr st)"
  shows "param_html rt param =
     Inr (tpl_head @ icon @ tpl_icon_name @ name @ tpl_name_class @ st @ tpl_class_label @
          (case st of [] \<Rightarrow> [] | c # cs \<Rightarrow> toUpperCase1 rt c @ cs) @ tpl_tail)"
  using assms
  by (cases st) (simp_all add: param_html_def toUpperCase_def charAt_def slice_def)

lemma string_params_render:
  assumes "\<forall>p \<in> set params. \<exists>icon name st.
      getProp p (js ''icon'') = Inr (JStr icon) \<and>
      getProp p (js ''name'') = Inr (JStr name) \<and>
      getProp p (js ''status'') = Inr (JStr st)"
  shows "\<exists>htmls. map (param_html rt) params = map Inr htmls"
  using assms
proof (induction params)
  case Nil
  then show ?case by simp
next
  case (Cons p ps)
  then obtain hs where hs: "map (param_html rt) ps = map Inr hs" by auto
  from Cons.prems obtain icon name st where
    "getProp p (js ''icon'') = Inr (JStr icon)"
    "getProp p (js ''name'') = Inr (JStr name)"
    "getProp p (js ''status'') = Inr (JStr st)"
    by auto
  from param_html_strings [OF this, of rt] obtain h where "param_html rt p = Inr h" by blast
  with hs have "map (param_html rt) (p # ps) = map Inr (h # hs)" by simp
  then show ?case by blast
qed

lemma trim_test_com: "trim (js ''http://test.com'') = js ''http://test.com''"
  by (simp add: trim_def is_space_def js_def)

lemma https_param_html:
  "param_html rt https_param =
     Inr (tpl_head @ lock_icon @ tpl_icon_name @ js ''HTTPS'' @ tpl_name_class @ js ''safe'' @
          tpl_class_label @ js ''Safe'' @ tpl_tail)"
proof -
  have "param_html rt https_param =
     Inr (tpl_head @ lock_icon @ tpl_icon_name @ js ''HTTPS'' @ tpl_name_class @ js ''safe'' @
          tpl_class_label @
          (case js ''safe'' of [] \<Rightarrow> [] | c # cs \<Rightarrow> toUpperCase1 rt c @ cs) @ tpl_tail)"
    by (rule param_html_strings) (simp_all add: https_param_def getProp_def js_def)
  moreover have "(case js ''safe'' of [] \<Rightarrow> [] | c # cs \<Rightarrow> toUpperCase1 rt c @ cs) = js ''Safe''"
    by (simp add: js_def toUpperCase1_def)
  ultimately show ?thesis by simp
qed

lemma handleAnalyze_begin_nonempty:
  "trim (urlInput_value s) \<noteq> [] \<Longrightarrow>
   handleAnalyze_begin s =
     (Some (fetch_request (trim (urlInput_value s))),
      (showLoading True s)\<lparr>requests := requests s @ [fetch_request (trim (urlInput_value s))]\<rparr>)"
  by (simp add: handleAnalyze_begin_def performAnalysis_begin_def Let_def showLoading_def)

lemma handleAnalyze_begin_empty:
  "trim (urlInput_value s) = [] \<Longrightarrow>
   handleAnalyze_begin s = (None, showError (js ''Please enter a URL'') s)"
  by (simp add: handleAnalyze_begin_def Let_def)

lemma mocked_score: "getProp mocked_response (js ''score'') = Inr (JNum 65)"
  by (simp add: mocked_response_def getProp_def js_def)

lemma mocked_parameters: "getProp mocked_response (js ''parameters'') = Inr (JArr [https_param])"
  by (simp add: mocked_response_def getProp_def js_def)

lemma displayResults_mocked:
  "displayResults rt mocked_response s =
     (Inr (), s\<lparr>resultsSection_hidden := False,
                scoreValue_textContent := js ''7/10'',
                progressFill_width := js ''70%'',
                parametersList := [\<lparr>className = js ''parameter-item'',
                   innerHTML = tpl_head @ lock_icon @ tpl_icon_name @ js ''HTTPS'' @
                     tpl_name_class @ js ''safe'' @ tpl_class_label @ js ''Safe'' @ tpl_tail\<rparr>]\<rparr>)"
proof -
  have n: "ToNumber rt (JNum 65) = Inr (Fin 65)" by (simp add: ToNumber_def)
  have score: "Math_round (divide_by_10 rt (Fin 65)) = Fin 7"
    by (simp add: Math_round_def divide_by_10_def floor_rat_numeral)
  have pct: "times_10 rt (Fin 7) = Fin 70" by (simp add: times_10_def)
  have t: "Number_toString rt (Fin 7) @ js ''/10'' = js ''7/10''"
    using Number_toString_int [of 7 rt] by (simp add: int_toString_def js_def)
  have w: "Number_toString rt (Fin 70) @ js ''%'' = js ''70%''"
    using Number_toString_int [of 70 rt] by (simp add: int_toString_def js_def)
  have sd: "scored rt (Fin 65) s =
      s\<lparr>resultsSection_hidden := False, scoreValue_textContent := js ''7/10'',
        progressFill_width := js ''70%'', parametersList := []\<rparr>"
    by (simp add: scored_def score pct t w set_width_def)
  show ?thesis
    by (simp add: displayResults_scored [OF mocked_score n] mocked_parameters sd
        https_param_html)
qed

lemma displayResults_frame:
  "\<exists>t w l. snd (displayResults rt analysis s) =
     s\<lparr>resultsSection_hidden := False, scoreValue_textContent := t,
       progressFill_width := w, parametersList := l\<rparr>"
proof -
  have untouched: "s\<lparr>resultsSection_hidden := False\<rparr> =
      s\<lparr>resultsSection_hidden := False,
       scoreValue_textContent := scoreValue_textContent s,
       progressFill_width := progressFill_width s, parametersList := parametersList s\<rparr>"
    by simp
  show ?thesis
  proof (cases "getProp analysis (js ''score'')")
    case (Inl e)
    then have "snd (displayResults rt analysis s) = s\<lparr>resultsSection_hidden := False\<rparr>"
      by (simp add: displayResults_def)
    with untouched show ?thesis by metis
  next
    case (Inr sc)
    show ?thesis
    proof (cases "ToNumber rt sc")
      case (Inl e)
      with Inr have "snd (displayResults rt analysis s) = s\<lparr>resultsSection_hidden := False\<rparr>"
        by (simp add: displayResults_score_throws)
      with untouched show ?thesis by metis
    next
      case n: (Inr n)
      from displayResults_list_of_scored [OF Inr n, of s]
      obtain l where l: "snd (displayResults rt analysis s) = (scored rt n s)\<lparr>parametersList := l\<rparr>"
        by blast
      from scored_frame [of rt n s]
      obtain t w where "scored rt n s =
          s\<lparr>resultsSection_hidden := False, scoreValue_textContent := t,
            progressFill_width := w, parametersList := []\<rparr>"
        by blast
      with l have "snd (displayResults rt analysis s) =
          s\<lparr>resultsSection_hidden := False, scoreValue_textContent := t,
            progressFill_width := w, parametersList := l\<rparr>"
        by simp
      then show ?thesis by blast
    qed
  qed
qed

lemma displayResults_keeps:
  "urlInput_value (snd (displayResults rt analysis s)) = urlInput_value s"
  "analyzeBtn_disabled (snd (displayResults rt analysis s)) = analyzeBtn_disabled s"
  "btnText_hidden (snd (displayResults rt analysis s)) = btnText_hidden s"
  "loader_hidden (snd (displayResults rt analysis s)) = loader_hidden s"
  "alerts (snd (displayResults rt analysis s)) = alerts s"
  "requests (snd (displayResults rt analysis s)) = requests s"
  "timers (snd (displayResults rt analysis s)) = timers s"
  using displayResults_frame [of rt analysis s] by auto

lemma performAnalysis_resume_keeps:
  "\<exists>ce. snd (performAnalysis_resume res s) = s\<lparr>console_errors := ce\<rparr>"
proof -
  have a: "s = s\<lparr>console_errors := console_errors s\<rparr>" by simp
  have b: "\<And>e. console_error e s = s\<lparr>console_errors := console_errors s @ [e]\<rparr>"
    by (simp add: console_error_def)
  show ?thesis
    unfolding performAnalysis_resume_def
    by (auto simp: Let_def b split: fetch_result.splits sum.splits intro: exI [of _ "console_errors s"])
qed

lemma handleAnalyze_try_cases:
  obtains (failed) e s1 where "performAnalysis_resume res s = (Inl e, s1)"
      "handleAnalyze_try rt res s = showError (js ''Analysis failed. Please try again.'') s1"
  | (thrown) analysis s1 e where "performAnalysis_resume res s = (Inr analysis, s1)"
      "fst (displayResults rt analysis s1) = Inl e"
      "handleAnalyze_try rt res s =
         showError (js ''Analysis failed. Please try again.'') (snd (displayResults rt analysis s1))"
  | (shown) analysis s1 where "performAnalysis_resume res s = (Inr analysis, s1)"
      "fst (displayResults rt analysis s1) = Inr ()"
      "handleAnalyze_try rt res s = expandPopup (snd (displayResults rt analysis s1))"
proof -
  obtain r s1 where p: "performAnalysis_resume res s = (r, s1)"
    by (cases "performAnalysis_resume res s")
  show thesis
  proof (cases r)
    case (Inl e)
    with p failed show thesis by (simp add: handleAnalyze_try_def)
  next
    case (Inr analysis)
    obtain d s2 where d: "displayResults rt analysis s1 = (d, s2)"
      by (cases "displayResults rt analysis s1")
    show thesis
    proof (cases d)
      case (Inl e)
      with p Inr d thrown [of analysis s1 e] show thesis
        by (simp add: handleAnalyze_try_def)
    next
      case r: (Inr u)
      with p Inr d shown [of analysis s1] show thesis
        by (simp add: handleAnalyze_try_def)
    qed
  qed
qed

lemma handleAnalyze_try_keeps:
  "urlInput_value (handleAnalyze_try rt res s) = urlInput_value s"
  "analyzeBtn_disabled (handleAnalyze_try rt res s) = analyzeBtn_disabled s"
  "btnText_hidden (handleAnalyze_try rt res s) = btnText_hidden s"
  "loader_hidden (handleAnalyze_try rt res s) = loader_hidden s"
  "requests (handleAnalyze_try rt res s) = requests s"
  "timers (handleAnalyze_try rt res s) = timers s"
proof -
  have k: "urlInput_value s1 = urlInput_value s \<and> analyzeBtn_disabled s1 = analyzeBtn_disabled s \<and>
      btnText_hidden s1 = btnText_hidden s \<and> loader_hidden s1 = loader_hidden s \<and>
      requests s1 = requests s \<and> timers s1 = timers s"
    if "performAnalysis_resume res s = (r, s1)" for r s1
    using performAnalysis_resume_keeps [of res s] that by auto
  have "urlInput_value (handleAnalyze_try rt res s) = urlInput_value s \<and>
    analyzeBtn_disabled (handleAnalyze_try rt res s) = analyzeBtn_disabled s \<and>
    btnText_hidden (handleAnalyze_try rt res s) = btnText_hidden s \<and>
    loader_hidden (handleAnalyze_try rt res s) = loader_hidden s \<and>
    requests (handleAnalyze_try rt res s) = requests s \<and>
    timers (handleAnalyze_try rt res s) = timers s"
  proof (cases rule: handleAnalyze_try_cases [of res s rt])
    case (failed e s1)
    with k [OF failed(1)] show ?thesis by (simp add: showError_def)
  next
    case (thrown analysis s1 e)
    with k [OF thrown(1)] show ?thesis by (simp add: showError_def displayResults_keeps)
  next
    case (shown analysis s1)
    with k [OF shown(1)] show ?thesis by (simp add: expandPopup_def displayResults_keeps)
  qed
  then show "urlInput_value (handleAnalyze_try rt res s) = urlInput_value s"
    "analyzeBtn_disabled (handleAnalyze_try rt res s) = analyzeBtn_disabled s"
    "btnText_hidden (handleAnalyze_try rt res s) = btnText_hidden s"
    "loader_hidden (handleAnalyze_try rt res s) = loader_hidden s"
    "requests (handleAnalyze_try rt res s) = requests s"
    "timers (handleAnalyze_try rt res s) = timers s"
    by simp_all
qed

lemma trim_nonempty: "trim u \<noteq> [] \<Longrightarrow> u \<noteq> []"
  by (auto simp: trim_def)

lemma performAnalysis_resume_not_ok:
  "\<not> ok r \<Longrightarrow> text_body r = Inr body \<Longrightarrow>
   performAnalysis_resume (Resolved r) s =
     (Inl (Error (js ''HTTP error '' @ int_toString (int (status r)) @ js '': '' @ body)),
      console_error (Error (js ''HTTP error '' @ int_toString (int (status r)) @ js '': '' @ body)) s)"
  by (simp add: performAnalysis_resume_def Let_def)

lemma trim_samples:
  "trim (js ''not a url!!'') = js ''not a url!!''"
  "trim (js ''example.com'') = js ''example.com''"
  "trim (js ''https://example.com/'') = js ''https://example.com/''"
  "trim (js ''   '') = []"
  "trim [] = []"
  by (simp_all add: trim_def is_space_def js_def)

lemma validate_samples:
  "\<not> validate (js ''not a url!!'')"
  "validate (js ''example.com'')"
  "validate (js ''example.org'')"
  by (simp_all add: pattern_defs js_def)

lemma forEach_param_list_only:
  "parametersList s = parametersList s' \<Longrightarrow>
   fst (forEach_param rt ps s) = fst (forEach_param rt ps s') \<and>
   parametersList (snd (forEach_param rt ps s)) = parametersList (snd (forEach_param rt ps s'))"
proof (induction ps arbitrary: s s')
  case Nil
  then show ?case by simp
next
  case (Cons p ps)
  show ?case
  proof (cases "param_html rt p")
    case (Inl e)
    with Cons.prems show ?thesis by simp
  next
    case (Inr html)
    let ?el = "\<lparr>className = js ''parameter-item'', innerHTML = html\<rparr>"
    have "parametersList (s\<lparr>parametersList := parametersList s @ [?el]\<rparr>) =
          parametersList (s'\<lparr>parametersList := parametersList s' @ [?el]\<rparr>)"
      using Cons.prems by simp
    from Cons.IH [OF this] Inr show ?thesis by simp
  qed
qed

lemma forEach_param_outcome:
  "fst (forEach_param rt ps s) = fst (forEach_param rt ps s')"
proof (induction ps arbitrary: s s')
  case Nil
  then show ?case by simp
next
  case (Cons p ps)
  then show ?case by (cases "param_html rt p") simp_all
qed

lemma displayResults_outcome:
  "fst (displayResults rt analysis s) = fst (displayResults rt analysis s')"
proof (cases "getProp analysis (js ''score'')")
  case (Inl e)
  then show ?thesis by (simp add: displayResults_def)
next
  case (Inr sc)
  show ?thesis
  proof (cases "ToNumber rt sc")
    case (Inl e)
    with Inr show ?thesis by (simp add: displayResults_score_throws)
  next
    case n: (Inr n)
    show ?thesis
    proof (cases "getProp analysis (js ''parameters'')")
      case (Inl e)
      then show ?thesis by (simp add: displayResults_scored [OF Inr n])
    next
      case ps: (Inr ps)
      then show ?thesis
        using forEach_param_outcome [of rt _ "scored rt n s" "scored rt n s'"]
        by (cases ps) (simp_all add: displayResults_scored [OF Inr n])
    qed
  qed
qed

lemma displayResults_from_scratch:
  assumes sc: "getProp analysis (js ''score'') = Inr sc" and n: "ToNumber rt sc = Inr n"
  shows "parametersList (snd (displayResults rt analysis s)) =
      parametersList (snd (displayResults rt analysis s'))"
proof (cases "getProp analysis (js ''parameters'')")
  case (Inl e)
  then show ?thesis by (simp add: displayResults_scored [OF sc n] scored_fields)
next
  case (Inr ps)
  show ?thesis
  proof (cases "\<exists>params. ps = JArr params")
    case True
    then obtain params where p: "ps = JArr params" by blast
    have "parametersList (scored rt n s) = parametersList (scored rt n s')"
      by (simp add: scored_fields)
    from forEach_param_list_only [OF this, of rt params] Inr p
    show ?thesis by (simp add: displayResults_scored [OF sc n])
  next
    case False
    with Inr show ?thesis
      by (cases ps) (auto simp: displayResults_scored [OF sc n] scored_fields)
  qed
qed

lemma handleAnalyze_requests:
  "trim (urlInput_value s) \<noteq> [] \<Longrightarrow>
   requests (handleAnalyze rt net s) = requests s @ [fetch_request (trim (urlInput_value s))]"
  by (simp add: handleAnalyze_def handleAnalyze_begin_nonempty handleAnalyze_resume_def
      showLoading_def handleAnalyze_try_keeps)

lemma autoFillURL_scheduled:
  assumes "tab_url t = Some u" and "trim u \<noteq> []"
    and "store (js ''autoAnalyze'') \<noteq> Some (JBool False)"
  shows "autoFillURL (Tabs (t # ts)) store s =
      (validateInput (s\<lparr>urlInput_value := u\<rparr>))\<lparr>timers := timers s @ [(500, Call_handleAnalyze)]\<rparr>"
proof -
  from assms(2) have "u \<noteq> []" by (rule trim_nonempty)
  with assms show ?thesis
    by (simp add: autoFillURL_def autoFillURL_tabs_def autoFillURL_prefs_def validateInput_def
        Let_def)
qed

lemma fire_scheduled:
  assumes "tab_url t = Some u" and "trim u \<noteq> []"
    and "store (js ''autoAnalyze'') \<noteq> Some (JBool False)" and "timers s = []"
  shows "requests (fire_timer rt net (autoFillURL (Tabs (t # ts)) store s)) =
           requests s @ [fetch_request (trim u)]"
proof -
  let ?s1 = "(validateInput (s\<lparr>urlInput_value := u\<rparr>))\<lparr>timers := []\<rparr>"
  have v: "urlInput_value ?s1 = u" "requests ?s1 = requests s"
    by (simp_all add: validateInput_def Let_def)
  from assms(2) v have ne: "trim (urlInput_value ?s1) \<noteq> []" by simp
  have "fire_timer rt net (autoFillURL (Tabs (t # ts)) store s) = handleAnalyze rt net ?s1"
    using assms(4) by (simp add: autoFillURL_scheduled [where store = store, OF assms(1-3)] fire_timer_def)
  with handleAnalyze_requests [OF ne, of rt net] v show ?thesis by simp
qed

section \<open>Input validation\<close>

text \<open>
  Claim C2. The validity computed at line 90 holds exactly for the non-empty
  strings in the language of the pattern: \<open>example.com\<close> and
  \<open>https://a.b/x?y=1\<close> are valid, the empty string and \<open>not a url!!\<close> are not.
  It is a function of the string alone, and \<^verbatim>\<open>validateInput\<close> does nothing but
  set the trigger's disabled flag to its negation, taken at the trimmed text
  of the input field.
\<close>

theorem validate_iff_pattern:
  "(validate url \<longleftrightarrow> url \<noteq> [] \<and> url \<in> lang url_pattern) \<and>
   validate (js ''example.com'') \<and>
   validate (js ''https://a.b/x?y=1'') \<and>
   \<not> validate (js '''') \<and>
   \<not> validate (js ''not a url!!'') \<and>
   validateInput s = s\<lparr>analyzeBtn_disabled := \<not> validate (trim (urlInput_value s))\<rparr>"
proof -
  have "validate url \<longleftrightarrow> url \<noteq> [] \<and> url \<in> lang url_pattern"
    by (simp add: validate_def RegExp_test_def matches_lang)
  moreover have "validate (js ''example.com'')"
    by (simp add: pattern_defs js_def)
  moreover have "validate (js ''https://a.b/x?y=1'')"
    by (simp add: pattern_defs js_def)
  moreover have "\<not> validate (js '''')"
    by (simp add: validate_def js_def)
  moreover have "\<not> validate (js ''not a url!!'')"
    by (simp add: pattern_defs js_def)
  moreover have "validateInput s = s\<lparr>analyzeBtn_disabled := \<not> validate (trim (urlInput_value s))\<rparr>"
    by (simp add: validateInput_def Let_def)
  ultimately show ?thesis by blast
qed

section \<open>The analysis call\<close>

text \<open>
  The two callers of \<^verbatim>\<open>handleAnalyze\<close> are the click listener and the timer set
  on load. The second does not depend on the trigger being enabled: for a tab
  at \<open>https://example.com/#top\<close>, which fails validation, the popup disables
  the trigger, schedules the analysis all the same, and sends the request when
  the timer fires.
\<close>

lemma auto_analyze_skips_validation:
  "\<not> validate (trim (js ''https://example.com/#top'')) \<and>
   analyzeBtn_disabled (autoFillURL (Tabs [\<lparr>tab_url = Some (js ''https://example.com/#top'')\<rparr>])
     Map.empty popup_start) \<and>
   requests (fire_timer rt net
     (autoFillURL (Tabs [\<lparr>tab_url = Some (js ''https://example.com/#top'')\<rparr>])
        Map.empty popup_start)) = [fetch_request (js ''https://example.com/#top'')]"
proof -
  let ?u = "js ''https://example.com/#top''"
  let ?t = "\<lparr>tab_url = Some ?u\<rparr>"
  have tr: "trim ?u = ?u" by (simp add: trim_def is_space_def js_def)
  have ne: "trim ?u \<noteq> []" unfolding tr by (simp add: js_def)
  have nv: "\<not> validate ?u" by (simp add: pattern_defs js_def)
  have st: "Map.empty (js ''autoAnalyze'') \<noteq> Some (JBool False)" by simp
  have tu: "tab_url ?t = Some ?u" by simp
  have ti: "timers popup_start = []" by (simp add: popup_start_def)
  have 1: "analyzeBtn_disabled (autoFillURL (Tabs [?t]) Map.empty popup_start)"
    unfolding autoFillURL_scheduled [where store = Map.empty, OF tu ne st]
    using nv by (simp add: validateInput_def Let_def tr)
  have 2: "requests (fire_timer rt net (autoFillURL (Tabs [?t]) Map.empty popup_start)) =
      [fetch_request ?u]"
    unfolding fire_scheduled [where store = Map.empty, OF tu ne st ti] tr by (simp add: popup_start_def)
  from nv 1 2 show ?thesis unfolding tr by blast
qed

text \<open>
  Claim C1, as stated, fails. The text \<open>not a url!!\<close> does not pass validation,
  yet \<^verbatim>\<open>handleAnalyze\<close> on it issues the request and shows no message:
  \<^verbatim>\<open>handleAnalyze\<close> tests the trimmed text for emptiness only (line 44).
\<close>

theorem handleAnalyze_invalid_url_counterexample:
  "\<not> validate (trim (urlInput_value (popup_start\<lparr>urlInput_value := js ''not a url!!''\<rparr>))) \<and>
   fst (handleAnalyze_begin (popup_start\<lparr>urlInput_value := js ''not a url!!''\<rparr>)) =
     Some (fetch_request (js ''not a url!!'')) \<and>
   requests (snd (handleAnalyze_begin (popup_start\<lparr>urlInput_value := js ''not a url!!''\<rparr>))) =
     [fetch_request (js ''not a url!!'')] \<and>
   alerts (snd (handleAnalyze_begin (popup_start\<lparr>urlInput_value := js ''not a url!!''\<rparr>))) = []"
proof -
  let ?s = "popup_start\<lparr>urlInput_value := js ''not a url!!''\<rparr>"
  have t: "trim (urlInput_value ?s) = js ''not a url!!''" by (simp add: trim_samples)
  have "js ''not a url!!'' \<noteq> []" by (simp add: js_def)
  with t have ne: "trim (urlInput_value ?s) \<noteq> []" by simp
  have b: "handleAnalyze_begin ?s =
      (Some (fetch_request (js ''not a url!!'')),
       (showLoading True ?s)\<lparr>requests := requests ?s @ [fetch_request (js ''not a url!!'')]\<rparr>)"
    using handleAnalyze_begin_nonempty [OF ne] t by simp
  show ?thesis
    unfolding b t
    by (simp add: validate_samples showLoading_def popup_start_def)
qed

text \<open>
  Claim C1, amended. When the trimmed text of the input field is empty,
  \<^verbatim>\<open>handleAnalyze\<close> shows \<open>Please enter a URL\<close>, changes nothing else and sends no
  request. For any other text, matching the pattern or not, it enters Loading
  and sends exactly one request, whose body carries the trimmed text.
\<close>

theorem handleAnalyze_validation:
  "(trim (urlInput_value s) = [] \<longrightarrow>
      handleAnalyze rt net s = showError (js ''Please enter a URL'') s \<and>
      requests (handleAnalyze rt net s) = requests s) \<and>
   (trim (urlInput_value s) \<noteq> [] \<longrightarrow>
      handleAnalyze_begin s =
        (Some (fetch_request (trim (urlInput_value s))),
         (showLoading True s)\<lparr>requests :=
            requests s @ [fetch_request (trim (urlInput_value s))]\<rparr>) \<and>
      requests (handleAnalyze rt net s) = requests s @ [fetch_request (trim (urlInput_value s))] \<and>
      body_stringify (fetch_request (trim (urlInput_value s))) =
        JObj [(js ''url'', JStr (trim (urlInput_value s)))])"
proof (intro conjI impI)
  assume e: "trim (urlInput_value s) = []"
  then show r: "handleAnalyze rt net s = showError (js ''Please enter a URL'') s"
    by (simp add: handleAnalyze_def handleAnalyze_begin_empty)
  show "requests (handleAnalyze rt net s) = requests s"
    by (simp add: r showError_def)
next
  assume ne: "trim (urlInput_value s) \<noteq> []"
  then show "handleAnalyze_begin s =
        (Some (fetch_request (trim (urlInput_value s))),
         (showLoading True s)\<lparr>requests :=
            requests s @ [fetch_request (trim (urlInput_value s))]\<rparr>)"
    by (rule handleAnalyze_begin_nonempty)
  from ne show "requests (handleAnalyze rt net s) =
      requests s @ [fetch_request (trim (urlInput_value s))]"
    by (simp add: handleAnalyze_def handleAnalyze_begin_nonempty handleAnalyze_resume_def
        showLoading_def handleAnalyze_try_keeps)
  show "body_stringify (fetch_request (trim (urlInput_value s))) =
        JObj [(js ''url'', JStr (trim (urlInput_value s)))]"
    by (simp add: fetch_request_def)
qed

theorem handleAnalyze_validation_witness:
  "\<forall>rt net.
     trim (urlInput_value (popup_start\<lparr>urlInput_value := js ''   ''\<rparr>)) = [] \<and>
     alerts (handleAnalyze rt net (popup_start\<lparr>urlInput_value := js ''   ''\<rparr>)) =
       [js ''Please enter a URL''] \<and>
     requests (handleAnalyze rt net (popup_start\<lparr>urlInput_value := js ''   ''\<rparr>)) = [] \<and>
     trim (urlInput_value (popup_start\<lparr>urlInput_value := js ''not a url!!''\<rparr>)) \<noteq> [] \<and>
     requests (handleAnalyze rt net (popup_start\<lparr>urlInput_value := js ''not a url!!''\<rparr>)) =
       [fetch_request (js ''not a url!!'')]"
proof (intro allI)
  fix rt net
  let ?e = "popup_start\<lparr>urlInput_value := js ''   ''\<rparr>"
  let ?n = "popup_start\<lparr>urlInput_value := js ''not a url!!''\<rparr>"
  have e: "trim (urlInput_value ?e) = []" by (simp add: trim_samples)
  have t: "trim (urlInput_value ?n) = js ''not a url!!''" by (simp add: trim_samples)
  have "js ''not a url!!'' \<noteq> []" by (simp add: js_def)
  with t have n: "trim (urlInput_value ?n) \<noteq> []" by simp
  from e handleAnalyze_validation [of ?e rt net]
  have 1: "handleAnalyze rt net ?e = showError (js ''Please enter a URL'') ?e"
    and 2: "requests (handleAnalyze rt net ?e) = requests ?e"
    by blast+
  from n handleAnalyze_validation [of ?n rt net]
  have 3: "requests (handleAnalyze rt net ?n) = requests ?n @ [fetch_request (trim (urlInput_value ?n))]"
    by blast
  show "trim (urlInput_value ?e) = [] \<and>
     alerts (handleAnalyze rt net ?e) = [js ''Please enter a URL''] \<and>
     requests (handleAnalyze rt net ?e) = [] \<and>
     trim (urlInput_value ?n) \<noteq> [] \<and>
     requests (handleAnalyze rt net ?n) = [fetch_request (js ''not a url!!'')]"
    using e n 1 2 3 t by (simp add: showError_def popup_start_def)
qed

text \<open>
  Claim C4, as stated, fails in its middle part. With \<open>example.com\<close> typed, the
  call enters Loading and disables the trigger; while the request is pending
  the user edits the text to \<open>example.org\<close>, the \<^verbatim>\<open>input\<close> listener runs
  \<^verbatim>\<open>validateInput\<close>, and the trigger is enabled again with the loading indicator
  still shown. A click then starts a second request beside the first.
\<close>

theorem trigger_enabled_while_pending_counterexample:
  "fst (handleAnalyze_begin (popup_start\<lparr>urlInput_value := js ''example.com''\<rparr>)) =
     Some (fetch_request (js ''example.com'')) \<and>
   analyzeBtn_disabled (snd (handleAnalyze_begin (popup_start\<lparr>urlInput_value := js ''example.com''\<rparr>))) \<and>
   \<not> loader_hidden (input_event (js ''example.org'')
       (snd (handleAnalyze_begin (popup_start\<lparr>urlInput_value := js ''example.com''\<rparr>)))) \<and>
   \<not> analyzeBtn_disabled (input_event (js ''example.org'')
       (snd (handleAnalyze_begin (popup_start\<lparr>urlInput_value := js ''example.com''\<rparr>)))) \<and>
   requests (snd (analyzeBtn_click (input_event (js ''example.org'')
       (snd (handleAnalyze_begin (popup_start\<lparr>urlInput_value := js ''example.com''\<rparr>)))))) =
     [fetch_request (js ''example.com''), fetch_request (js ''example.org'')]"
proof -
  let ?s = "popup_start\<lparr>urlInput_value := js ''example.com''\<rparr>"
  have t: "trim (urlInput_value ?s) = js ''example.com''" by (simp add: trim_samples)
  have "js ''example.com'' \<noteq> []" by (simp add: js_def)
  with t have ne: "trim (urlInput_value ?s) \<noteq> []" by simp
  have o: "trim (js ''example.org'') = js ''example.org''"
    by (simp add: trim_def is_space_def js_def)
  have o': "js ''example.org'' \<noteq> []" by (simp add: js_def)
  have b: "handleAnalyze_begin ?s =
      (Some (fetch_request (js ''example.com'')),
       (showLoading True ?s)\<lparr>requests := requests ?s @ [fetch_request (js ''example.com'')]\<rparr>)"
    using handleAnalyze_begin_nonempty [OF ne] t by simp
  let ?s1 = "(showLoading True ?s)\<lparr>requests := requests ?s @ [fetch_request (js ''example.com'')]\<rparr>"
  let ?s2 = "input_event (js ''example.org'') ?s1"
  have v: "urlInput_value ?s2 = js ''example.org''" "\<not> analyzeBtn_disabled ?s2"
    "\<not> loader_hidden ?s2" "requests ?s2 = [fetch_request (js ''example.com'')]"
    by (simp_all add: validate_samples o showLoading_def input_event_def validateInput_def Let_def
        popup_start_def)
  have ne2: "trim (urlInput_value ?s2) \<noteq> []" using v(1) o o' by simp
  have b2: "handleAnalyze_begin ?s2 =
      (Some (fetch_request (trim (urlInput_value ?s2))),
       (showLoading True ?s2)\<lparr>requests :=
          requests ?s2 @ [fetch_request (trim (urlInput_value ?s2))]\<rparr>)"
    by (rule handleAnalyze_begin_nonempty [OF ne2])
  have "analyzeBtn_click ?s2 = handleAnalyze_begin ?s2"
    using v(2) unfolding analyzeBtn_click_def by (rule if_not_P)
  then have "requests (snd (analyzeBtn_click ?s2)) =
      requests ?s2 @ [fetch_request (trim (urlInput_value ?s2))]"
    unfolding b2 by simp
  then have c: "requests (snd (analyzeBtn_click ?s2)) =
     [fetch_request (js ''example.com''), fetch_request (js ''example.org'')]"
    unfolding v(1) v(4) o by simp
  show ?thesis
    unfolding b using v c by (simp add: showLoading_def)
qed

text \<open>
  Claim C4, amended. A call that enters Loading sets the trigger's disabled
  flag and shows the loading indicator; the steps of the call itself between
  that and the final step change neither; the final step, reached after
  success and after every failure, hides the indicator and clears the flag.
  In between the flag is not protected: an \<^verbatim>\<open>input\<close> event sets it to the
  negation of the validity of the new text.
\<close>

theorem handleAnalyze_loading_bracket:
  "(trim (urlInput_value s) \<noteq> [] \<longrightarrow>
      analyzeBtn_disabled (snd (handleAnalyze_begin s)) \<and>
      \<not> loader_hidden (snd (handleAnalyze_begin s))) \<and>
   analyzeBtn_disabled (handleAnalyze_try rt res s) = analyzeBtn_disabled s \<and>
   loader_hidden (handleAnalyze_try rt res s) = loader_hidden s \<and>
   handleAnalyze_resume rt res s = showLoading False (handleAnalyze_try rt res s) \<and>
   loader_hidden (handleAnalyze_resume rt res s) \<and>
   \<not> analyzeBtn_disabled (handleAnalyze_resume rt res s) \<and>
   analyzeBtn_disabled (input_event v s) = (\<not> validate (trim v))"
proof (intro conjI impI)
  assume ne: "trim (urlInput_value s) \<noteq> []"
  show "analyzeBtn_disabled (snd (handleAnalyze_begin s))"
    by (simp add: handleAnalyze_begin_nonempty [OF ne] showLoading_def)
  show "\<not> loader_hidden (snd (handleAnalyze_begin s))"
    by (simp add: handleAnalyze_begin_nonempty [OF ne] showLoading_def)
next
  show "analyzeBtn_disabled (handleAnalyze_try rt res s) = analyzeBtn_disabled s"
    by (rule handleAnalyze_try_keeps)
  show "loader_hidden (handleAnalyze_try rt res s) = loader_hidden s"
    by (rule handleAnalyze_try_keeps)
  show "handleAnalyze_resume rt res s = showLoading False (handleAnalyze_try rt res s)"
    by (simp add: handleAnalyze_resume_def)
  show "loader_hidden (handleAnalyze_resume rt res s)"
    by (simp add: handleAnalyze_resume_def showLoading_def)
  show "\<not> analyzeBtn_disabled (handleAnalyze_resume rt res s)"
    by (simp add: handleAnalyze_resume_def showLoading_def)
  show "analyzeBtn_disabled (input_event v s) = (\<not> validate (trim v))"
    by (simp add: input_event_def validateInput_def Let_def)
qed

theorem handleAnalyze_loading_bracket_witness:
  "\<forall>rt res.
     trim (urlInput_value (popup_start\<lparr>urlInput_value := js ''example.com''\<rparr>)) \<noteq> [] \<and>
     analyzeBtn_disabled (snd (handleAnalyze_begin (popup_start\<lparr>urlInput_value := js ''example.com''\<rparr>))) \<and>
     \<not> loader_hidden (snd (handleAnalyze_begin (popup_start\<lparr>urlInput_value := js ''example.com''\<rparr>))) \<and>
     analyzeBtn_disabled (handleAnalyze_try rt res
       (snd (handleAnalyze_begin (popup_start\<lparr>urlInput_value := js ''example.com''\<rparr>)))) \<and>
     loader_hidden (handleAnalyze_resume rt res
       (snd (handleAnalyze_begin (popup_start\<lparr>urlInput_value := js ''example.com''\<rparr>)))) \<and>
     \<not> analyzeBtn_disabled (handleAnalyze_resume rt res
       (snd (handleAnalyze_begin (popup_start\<lparr>urlInput_value := js ''example.com''\<rparr>))))"
proof (intro allI)
  fix rt res
  let ?s = "popup_start\<lparr>urlInput_value := js ''example.com''\<rparr>"
  have t: "trim (urlInput_value ?s) = js ''example.com''" by (simp add: trim_samples)
  have "js ''example.com'' \<noteq> []" by (simp add: js_def)
  with t have ne: "trim (urlInput_value ?s) \<noteq> []" by simp
  from ne handleAnalyze_loading_bracket [where s = ?s and rt = rt and res = res]
    handleAnalyze_loading_bracket [where s = "snd (handleAnalyze_begin ?s)" and rt = rt and res = res]
  show "trim (urlInput_value ?s) \<noteq> [] \<and>
     analyzeBtn_disabled (snd (handleAnalyze_begin ?s)) \<and>
     \<not> loader_hidden (snd (handleAnalyze_begin ?s)) \<and>
     analyzeBtn_disabled (handleAnalyze_try rt res (snd (handleAnalyze_begin ?s))) \<and>
     loader_hidden (handleAnalyze_resume rt res (snd (handleAnalyze_begin ?s))) \<and>
     \<not> analyzeBtn_disabled (handleAnalyze_resume rt res (snd (handleAnalyze_begin ?s)))"
    by blast
qed

text \<open>
  Claim C9. The final step of a call clears the trigger's disabled flag
  whatever the state is by then, and the call leaves the text of the input
  field as it was. So after a call on a non-empty text that fails validation
  the trigger is enabled although the text is invalid: the flag no longer
  equals the negation of the validity.
\<close>

theorem completion_enables_trigger:
  "\<not> analyzeBtn_disabled (handleAnalyze_resume rt res s) \<and>
   urlInput_value (handleAnalyze_resume rt res s) = urlInput_value s \<and>
   (trim (urlInput_value s) \<noteq> [] \<longrightarrow>
      \<not> analyzeBtn_disabled (handleAnalyze rt net s) \<and>
      urlInput_value (handleAnalyze rt net s) = urlInput_value s) \<and>
   (trim (urlInput_value s) \<noteq> [] \<and> \<not> validate (trim (urlInput_value s)) \<longrightarrow>
      analyzeBtn_disabled (handleAnalyze rt net s) \<noteq>
        (\<not> validate (trim (urlInput_value (handleAnalyze rt net s)))))"
proof -
  have a: "\<not> analyzeBtn_disabled (handleAnalyze_resume rt res s)" for res s
    by (simp add: handleAnalyze_resume_def showLoading_def)
  have b: "urlInput_value (handleAnalyze_resume rt res s) = urlInput_value s" for res s
    by (simp add: handleAnalyze_resume_def showLoading_def handleAnalyze_try_keeps)
  have c: "\<not> analyzeBtn_disabled (handleAnalyze rt net s) \<and>
      urlInput_value (handleAnalyze rt net s) = urlInput_value s"
    if "trim (urlInput_value s) \<noteq> []"
    using that a b
    by (simp add: handleAnalyze_def handleAnalyze_begin_nonempty showLoading_def)
  from a b c show ?thesis by auto
qed

theorem completion_enables_trigger_witness:
  "\<forall>rt net.
     (trim (urlInput_value (popup_start\<lparr>urlInput_value := js ''not a url!!'',
         analyzeBtn_disabled := True\<rparr>)) \<noteq> [] \<and>
      \<not> validate (trim (urlInput_value (popup_start\<lparr>urlInput_value := js ''not a url!!'',
         analyzeBtn_disabled := True\<rparr>)))) \<and>
     \<not> analyzeBtn_disabled (handleAnalyze rt net (popup_start\<lparr>urlInput_value := js ''not a url!!'',
         analyzeBtn_disabled := True\<rparr>)) \<and>
     \<not> validate (trim (urlInput_value (handleAnalyze rt net
       (popup_start\<lparr>urlInput_value := js ''not a url!!'', analyzeBtn_disabled := True\<rparr>))))"
proof (intro allI)
  fix rt net
  let ?s = "popup_start\<lparr>urlInput_value := js ''not a url!!'', analyzeBtn_disabled := True\<rparr>"
  have t: "trim (urlInput_value ?s) = js ''not a url!!''" by (simp add: trim_samples)
  have "js ''not a url!!'' \<noteq> []" by (simp add: js_def)
  with t have h: "trim (urlInput_value ?s) \<noteq> [] \<and> \<not> validate (trim (urlInput_value ?s))"
    using validate_samples(1) by simp
  note th = completion_enables_trigger [where s = ?s and rt = rt and net = net]
  from th h have 1: "\<not> analyzeBtn_disabled (handleAnalyze rt net ?s)" by blast
  from th h have "analyzeBtn_disabled (handleAnalyze rt net ?s) \<noteq>
        (\<not> validate (trim (urlInput_value (handleAnalyze rt net ?s))))"
    by blast
  with 1 have 2: "\<not> validate (trim (urlInput_value (handleAnalyze rt net ?s)))" by blast
  from h 1 2 show "(trim (urlInput_value ?s) \<noteq> [] \<and> \<not> validate (trim (urlInput_value ?s))) \<and>
     \<not> analyzeBtn_disabled (handleAnalyze rt net ?s) \<and>
     \<not> validate (trim (urlInput_value (handleAnalyze rt net ?s)))"
    by blast
qed

text \<open>
  Claim C7. For a response whose status is outside 200 to 299 and whose body
  text is \<open>body\<close>, \<^verbatim>\<open>performAnalysis\<close> fails with the error
  \<open>HTTP error <status>: <body>\<close> (also logged to the console), and the call
  ends by showing the one fixed message \<open>Analysis failed. Please try again.\<close>,
  which depends on neither; the displayed score and list stay as they were.
\<close>

theorem non_success_response:
  "(\<not> ok r \<and> text_body r = Inr body \<longrightarrow>
      performAnalysis_resume (Resolved r) s =
        (Inl (Error (js ''HTTP error '' @ int_toString (int (status r)) @ js '': '' @ body)),
         console_error
           (Error (js ''HTTP error '' @ int_toString (int (status r)) @ js '': '' @ body)) s) \<and>
      handleAnalyze_resume rt (Resolved r) s =
        showLoading False (showError (js ''Analysis failed. Please try again.'')
          (console_error
            (Error (js ''HTTP error '' @ int_toString (int (status r)) @ js '': '' @ body)) s)) \<and>
      alerts (handleAnalyze_resume rt (Resolved r) s) =
        alerts s @ [js ''Analysis failed. Please try again.'']) \<and>
   (\<not> ok r \<and> text_body r = Inr body \<and> trim (urlInput_value s) \<noteq> [] \<and>
    net (fetch_request (trim (urlInput_value s))) = Resolved r \<longrightarrow>
      alerts (handleAnalyze rt net s) = alerts s @ [js ''Analysis failed. Please try again.''] \<and>
      scoreValue_textContent (handleAnalyze rt net s) = scoreValue_textContent s \<and>
      parametersList (handleAnalyze rt net s) = parametersList s)"
proof (intro conjI impI)
  assume h: "\<not> ok r \<and> text_body r = Inr body"
  let ?e = "Error (js ''HTTP error '' @ int_toString (int (status r)) @ js '': '' @ body)"
  from h show p: "performAnalysis_resume (Resolved r) s = (Inl ?e, console_error ?e s)"
    using performAnalysis_resume_not_ok by blast
  then show t: "handleAnalyze_resume rt (Resolved r) s =
        showLoading False (showError (js ''Analysis failed. Please try again.'')
          (console_error ?e s))"
    by (simp add: handleAnalyze_resume_def handleAnalyze_try_def)
  show "alerts (handleAnalyze_resume rt (Resolved r) s) =
        alerts s @ [js ''Analysis failed. Please try again.'']"
    by (simp add: t showLoading_def showError_def console_error_def)
next
  assume h: "\<not> ok r \<and> text_body r = Inr body \<and> trim (urlInput_value s) \<noteq> [] \<and>
    net (fetch_request (trim (urlInput_value s))) = Resolved r"
  let ?e = "Error (js ''HTTP error '' @ int_toString (int (status r)) @ js '': '' @ body)"
  let ?s1 = "(showLoading True s)\<lparr>requests := requests s @ [fetch_request (trim (urlInput_value s))]\<rparr>"
  from h have p: "performAnalysis_resume (Resolved r) ?s1 = (Inl ?e, console_error ?e ?s1)"
    using performAnalysis_resume_not_ok by blast
  from h have run: "handleAnalyze rt net s =
      showLoading False (showError (js ''Analysis failed. Please try again.'')
          (console_error ?e ?s1))"
    by (simp add: handleAnalyze_def handleAnalyze_begin_nonempty handleAnalyze_resume_def
        handleAnalyze_try_def p)
  show "alerts (handleAnalyze rt net s) = alerts s @ [js ''Analysis failed. Please try again.'']"
    by (simp add: run showLoading_def showError_def console_error_def)
  show "scoreValue_textContent (handleAnalyze rt net s) = scoreValue_textContent s"
    by (simp add: run showLoading_def showError_def console_error_def)
  show "parametersList (handleAnalyze rt net s) = parametersList s"
    by (simp add: run showLoading_def showError_def console_error_def)
qed

theorem non_success_response_witness:
  "\<forall>rt.
     (\<not> ok server_error \<and> text_body server_error = Inr (js ''Internal Server Error'')) \<and>
     fst (performAnalysis_resume (Resolved server_error) popup_start) =
       Inl (Error (js ''HTTP error 500: Internal Server Error'')) \<and>
     trim (urlInput_value (popup_start\<lparr>urlInput_value := js ''example.com''\<rparr>)) \<noteq> [] \<and>
     alerts (handleAnalyze rt (\<lambda>req. Resolved server_error)
       (popup_start\<lparr>urlInput_value := js ''example.com''\<rparr>)) =
       [js ''Analysis failed. Please try again.'']"
proof (intro allI)
  fix rt
  let ?s = "popup_start\<lparr>urlInput_value := js ''example.com''\<rparr>"
  let ?net = "\<lambda>req :: request. Resolved server_error"
  have h: "\<not> ok server_error \<and> text_body server_error = Inr (js ''Internal Server Error'')"
    by (simp add: server_error_def ok_def)
  have m: "js ''HTTP error '' @ int_toString (int (status server_error)) @ js '': '' @
      js ''Internal Server Error'' = js ''HTTP error 500: Internal Server Error''"
    by (simp add: server_error_def int_toString_def js_def)
  have t: "trim (urlInput_value ?s) = js ''example.com''" by (simp add: trim_samples)
  have "js ''example.com'' \<noteq> []" by (simp add: js_def)
  with t have ne: "trim (urlInput_value ?s) \<noteq> []" by simp
  note th1 = non_success_response [where r = server_error and body = "js ''Internal Server Error''"
      and s = popup_start and rt = rt and net = ?net]
  note th2 = non_success_response [where r = server_error and body = "js ''Internal Server Error''"
      and s = ?s and rt = rt and net = ?net]
  from th1 h m have 1: "fst (performAnalysis_resume (Resolved server_error) popup_start) =
       Inl (Error (js ''HTTP error 500: Internal Server Error''))"
    by simp
  from th2 h ne have "alerts (handleAnalyze rt ?net ?s) =
      alerts ?s @ [js ''Analysis failed. Please try again.'']"
    by simp
  then have 2: "alerts (handleAnalyze rt ?net ?s) = [js ''Analysis failed. Please try again.'']"
    by (simp add: popup_start_def)
  from h 1 ne 2 show "(\<not> ok server_error \<and> text_body server_error = Inr (js ''Internal Server Error'')) \<and>
     fst (performAnalysis_resume (Resolved server_error) popup_start) =
       Inl (Error (js ''HTTP error 500: Internal Server Error'')) \<and>
     trim (urlInput_value ?s) \<noteq> [] \<and>
     alerts (handleAnalyze rt ?net ?s) = [js ''Analysis failed. Please try again.'']"
    by blast
qed

section \<open>Rendering a response\<close>

text \<open>
  Claim C3. For a response whose score is a number \<open>x\<close> between 0 and 100, the
  score shown is \<open>round (x / 10)\<close>, an integer between 0 and 10, followed by
  \<open>/10\<close>, and the width of the progress bar is ten times that number followed by
  \<open>%\<close>, whatever the rest of the response is and whether or not the parameters
  render. A score of 77 shows \<open>8/10\<close> and \<open>80%\<close>, a score of 5 shows \<open>1/10\<close> and
  \<open>10%\<close>.
\<close>

theorem displayResults_score:
  "(getProp analysis (js ''score'') = Inr (JNum x) \<and> 0 \<le> x \<and> x \<le> 100 \<longrightarrow>
      scoreValue_textContent (snd (displayResults rt analysis s)) =
        int_toString (round (x / 10)) @ js ''/10'' \<and>
      0 \<le> round (x / 10) \<and> round (x / 10) \<le> 10 \<and>
      progressFill_width (snd (displayResults rt analysis s)) =
        int_toString (round (x / 10) * 10) @ js ''%'') \<and>
   (getProp analysis (js ''score'') = Inr (JNum 77) \<longrightarrow>
      scoreValue_textContent (snd (displayResults rt analysis s)) = js ''8/10'' \<and>
      progressFill_width (snd (displayResults rt analysis s)) = js ''80%'') \<and>
   (getProp analysis (js ''score'') = Inr (JNum 5) \<longrightarrow>
      scoreValue_textContent (snd (displayResults rt analysis s)) = js ''1/10'' \<and>
      progressFill_width (snd (displayResults rt analysis s)) = js ''10%'')"
proof -
  have gen: "scoreValue_textContent (snd (displayResults rt analysis s)) =
        int_toString (round (x / 10)) @ js ''/10'' \<and>
      0 \<le> round (x / 10) \<and> round (x / 10) \<le> 10 \<and>
      progressFill_width (snd (displayResults rt analysis s)) =
        int_toString (round (x / 10) * 10) @ js ''%''"
    if sc: "getProp analysis (js ''score'') = Inr (JNum x)" and lo: "0 \<le> x" and hi: "x \<le> 100"
    for x
  proof -
    have n: "ToNumber rt (JNum x) = Inr (Fin x)" by (simp add: ToNumber_def)
    have "\<bar>x\<bar> \<le> 100" using lo hi by simp
    then have small: "\<bar>x\<bar> \<le> 2 ^ 53" by simp
    have score: "Math_round (divide_by_10 rt (Fin x)) = Fin (of_int (round (x / 10)))"
      using small by (simp add: Math_round_def divide_by_10_def round_def)
    have r0: "0 \<le> round (x / 10)" using lo by (simp add: round_def)
    have "x / 10 + 1 / 2 < 11" using hi by simp
    then have "\<lfloor>x / 10 + 1 / 2\<rfloor> < 11" by (simp add: floor_less_iff)
    then have r10: "round (x / 10) \<le> 10" by (simp add: round_def)
    have a1: "\<bar>round (x / 10)\<bar> < 10 ^ 21" using r0 r10 by simp
    have a2: "\<bar>round (x / 10) * 10\<bar> < 10 ^ 21" using r0 r10 by simp
    have "\<bar>(of_int (round (x / 10)) :: rat) * 10\<bar> = of_int (round (x / 10) * 10)"
      using r0 by simp
    also have "\<dots> \<le> of_int 100" using r10 by simp
    finally have "\<bar>(of_int (round (x / 10)) :: rat) * 10\<bar> \<le> 2 ^ 53" by simp
    then have pct: "times_10 rt (Fin (of_int (round (x / 10)))) =
        Fin (of_int (round (x / 10) * 10))"
      by (simp add: times_10_def)
    have wd: "progressFill_width (set_width rt (Fin (of_int (round (x / 10) * 10))) s) =
            int_toString (round (x / 10) * 10) @ js ''%''"
      using r0 Number_toString_int [OF a2, of rt] by (simp add: set_width_def del: of_int_mult)
    from displayResults_score_fields [OF sc n, of s] score pct wd r0 r10
      Number_toString_int [OF a1, of rt]
    show ?thesis by simp
  qed
  have r77: "round (77 / 10 :: rat) = 8" by (simp add: round_def floor_rat_numeral)
  have r5: "round (5 / 10 :: rat) = 1" by (simp add: round_def)
  have t8: "int_toString 8 @ js ''/10'' = js ''8/10''" by (simp add: int_toString_def js_def)
  have w8: "int_toString (8 * 10) @ js ''%'' = js ''80%''" by (simp add: int_toString_def js_def)
  have t1: "int_toString 1 @ js ''/10'' = js ''1/10''" by (simp add: int_toString_def js_def)
  have w1: "int_toString (1 * 10) @ js ''%'' = js ''10%''" by (simp add: int_toString_def js_def)
  have e77: "scoreValue_textContent (snd (displayResults rt analysis s)) = js ''8/10'' \<and>
      progressFill_width (snd (displayResults rt analysis s)) = js ''80%''"
    if "getProp analysis (js ''score'') = Inr (JNum 77)"
    using gen [OF that] r77 t8 w8 by simp
  have e5: "scoreValue_textContent (snd (displayResults rt analysis s)) = js ''1/10'' \<and>
      progressFill_width (snd (displayResults rt analysis s)) = js ''10%''"
    if "getProp analysis (js ''score'') = Inr (JNum 5)"
    using gen [OF that] r5 t1 w1 by simp
  show ?thesis using gen e77 e5 by blast
qed

theorem displayResults_score_witness:
  "\<forall>rt.
     (getProp (JObj [(js ''score'', JNum 77), (js ''parameters'', JArr [])]) (js ''score'') =
        Inr (JNum 77) \<and> (0::rat) \<le> 77 \<and> (77::rat) \<le> 100) \<and>
     scoreValue_textContent (snd (displayResults rt
        (JObj [(js ''score'', JNum 77), (js ''parameters'', JArr [])]) popup_start)) = js ''8/10'' \<and>
     progressFill_width (snd (displayResults rt
        (JObj [(js ''score'', JNum 77), (js ''parameters'', JArr [])]) popup_start)) = js ''80%'' \<and>
     round (77 / 10 :: rat) = 8"
proof
  fix rt
  let ?a = "JObj [(js ''score'', JNum 77), (js ''parameters'', JArr [])]"
  have g: "getProp ?a (js ''score'') = Inr (JNum 77)" by (simp add: getProp_def)
  have r77: "round (77 / 10 :: rat) = 8" by (simp add: round_def floor_rat_numeral)
  from g displayResults_score [of ?a 77 rt popup_start]
  have "scoreValue_textContent (snd (displayResults rt ?a popup_start)) = js ''8/10'' \<and>
     progressFill_width (snd (displayResults rt ?a popup_start)) = js ''80%''"
    by blast
  with g r77
  show "(getProp ?a (js ''score'') = Inr (JNum 77) \<and> (0::rat) \<le> 77 \<and> (77::rat) \<le> 100) \<and>
     scoreValue_textContent (snd (displayResults rt ?a popup_start)) = js ''8/10'' \<and>
     progressFill_width (snd (displayResults rt ?a popup_start)) = js ''80%'' \<and>
     round (77 / 10 :: rat) = 8"
    by simp
qed

text \<open>
  Claim C5. For a response whose score converts to a number (every number
  does) and whose parameters all render, the list shown after
  \<^verbatim>\<open>displayResults\<close> is exactly the elements of this response, in the order of
  its array, whatever the list held before: rendering after an earlier
  response leaves nothing of the earlier one. An empty array gives an empty
  list and no exception. Whenever the score converts, the list shown afterwards
  does not depend on the state before, also when a parameter fails to render.
  In particular a response whose score is a number and whose parameters have
  strings as icon, name and status renders without exception, one row for
  each parameter in the order of the array.
\<close>

theorem displayResults_rebuilds_list:
  "(getProp analysis (js ''score'') = Inr sc \<and> ToNumber rt sc = Inr n \<and>
    getProp analysis (js ''parameters'') = Inr (JArr params) \<and>
    map (param_html rt) params = map Inr htmls \<longrightarrow>
      fst (displayResults rt analysis s) = Inr () \<and>
      parametersList (snd (displayResults rt analysis s)) =
        map (\<lambda>h. \<lparr>className = js ''parameter-item'', innerHTML = h\<rparr>) htmls \<and>
      parametersList (snd (displayResults rt analysis (snd (displayResults rt earlier s)))) =
        map (\<lambda>h. \<lparr>className = js ''parameter-item'', innerHTML = h\<rparr>) htmls) \<and>
   (getProp analysis (js ''score'') = Inr sc \<and> ToNumber rt sc = Inr n \<and>
    getProp analysis (js ''parameters'') = Inr (JArr []) \<longrightarrow>
      fst (displayResults rt analysis s) = Inr () \<and>
      parametersList (snd (displayResults rt analysis s)) = []) \<and>
   (getProp analysis (js ''score'') = Inr sc \<and> ToNumber rt sc = Inr n \<longrightarrow>
      parametersList (snd (displayResults rt analysis s)) =
        parametersList (snd (displayResults rt analysis s'))) \<and>
   (getProp analysis (js ''score'') = Inr (JNum x) \<and>
    getProp analysis (js ''parameters'') = Inr (JArr params) \<and>
    (\<forall>p \<in> set params. \<exists>icon name st.
       getProp p (js ''icon'') = Inr (JStr icon) \<and>
       getProp p (js ''name'') = Inr (JStr name) \<and>
       getProp p (js ''status'') = Inr (JStr st)) \<longrightarrow>
      fst (displayResults rt analysis s) = Inr () \<and>
      map (\<lambda>el. Inr (innerHTML el)) (parametersList (snd (displayResults rt analysis s))) =
        map (param_html rt) params \<and>
      (\<forall>el \<in> set (parametersList (snd (displayResults rt analysis s))).
         className el = js ''parameter-item'')) \<and>
   ToNumber rt (JNum x) = Inr (Fin x)"
proof (intro conjI impI)
  assume h: "getProp analysis (js ''score'') = Inr sc \<and> ToNumber rt sc = Inr n \<and>
    getProp analysis (js ''parameters'') = Inr (JArr params) \<and>
    map (param_html rt) params = map Inr htmls"
  then show "fst (displayResults rt analysis s) = Inr ()"
    using displayResults_all_rendered(1) by blast
  from h show "parametersList (snd (displayResults rt analysis s)) =
        map (\<lambda>h. \<lparr>className = js ''parameter-item'', innerHTML = h\<rparr>) htmls"
    using displayResults_all_rendered(2) by blast
  from h show "parametersList (snd (displayResults rt analysis (snd (displayResults rt earlier s)))) =
        map (\<lambda>h. \<lparr>className = js ''parameter-item'', innerHTML = h\<rparr>) htmls"
    using displayResults_all_rendered(2) by blast
next
  assume e: "getProp analysis (js ''score'') = Inr sc \<and> ToNumber rt sc = Inr n \<and>
    getProp analysis (js ''parameters'') = Inr (JArr [])"
  have m: "map (param_html rt) [] = map Inr []" by simp
  from e have sc: "getProp analysis (js ''score'') = Inr sc" and n: "ToNumber rt sc = Inr n"
    and ps: "getProp analysis (js ''parameters'') = Inr (JArr [])"
    by blast+
  show "fst (displayResults rt analysis s) = Inr ()"
    using displayResults_all_rendered(1) [OF sc n ps m] .
  show "parametersList (snd (displayResults rt analysis s)) = []"
    using displayResults_all_rendered(2) [OF sc n ps m] by simp
next
  assume "getProp analysis (js ''score'') = Inr sc \<and> ToNumber rt sc = Inr n"
  then show "parametersList (snd (displayResults rt analysis s)) =
        parametersList (snd (displayResults rt analysis s'))"
    using displayResults_from_scratch [of analysis sc rt n s s'] by blast
next
  assume t: "getProp analysis (js ''score'') = Inr (JNum x) \<and>
    getProp analysis (js ''parameters'') = Inr (JArr params) \<and>
    (\<forall>p \<in> set params. \<exists>icon name st.
       getProp p (js ''icon'') = Inr (JStr icon) \<and>
       getProp p (js ''name'') = Inr (JStr name) \<and>
       getProp p (js ''status'') = Inr (JStr st))"
  then obtain hs where hs: "map (param_html rt) params = map Inr hs"
    using string_params_render [of params rt] by blast
  from t have sc: "getProp analysis (js ''score'') = Inr (JNum x)"
    and ps: "getProp analysis (js ''parameters'') = Inr (JArr params)"
    by blast+
  have n: "ToNumber rt (JNum x) = Inr (Fin x)" by (simp add: ToNumber_def)
  note r = displayResults_all_rendered [OF sc n ps hs, of s]
  show "fst (displayResults rt analysis s) = Inr ()" by (rule r(1))
  show "map (\<lambda>el. Inr (innerHTML el)) (parametersList (snd (displayResults rt analysis s))) =
        map (param_html rt) params"
    by (simp add: r(2) hs comp_def)
  show "\<forall>el \<in> set (parametersList (snd (displayResults rt analysis s))).
         className el = js ''parameter-item''"
    by (auto simp: r(2))
next
  show "ToNumber rt (JNum x) = Inr (Fin x)" by (simp add: ToNumber_def)
qed

theorem displayResults_rebuilds_list_witness:
  "\<forall>rt.
     (getProp mocked_response (js ''score'') = Inr (JNum 65) \<and>
      ToNumber rt (JNum 65) = Inr (Fin 65) \<and>
      getProp mocked_response (js ''parameters'') = Inr (JArr [https_param]) \<and>
      map (param_html rt) [https_param] =
        map Inr [tpl_head @ lock_icon @ tpl_icon_name @ js ''HTTPS'' @ tpl_name_class @
                 js ''safe'' @ tpl_class_label @ js ''Safe'' @ tpl_tail]) \<and>
     fst (displayResults rt mocked_response popup_start) = Inr () \<and>
     length (parametersList (snd (displayResults rt mocked_response
       (snd (displayResults rt mocked_response popup_start))))) = 1 \<and>
     (getProp (JObj [(js ''score'', JNum 65), (js ''parameters'', JArr [])]) (js ''score'') =
        Inr (JNum 65) \<and>
      getProp (JObj [(js ''score'', JNum 65), (js ''parameters'', JArr [])]) (js ''parameters'') =
        Inr (JArr [])) \<and>
     parametersList (snd (displayResults rt
       (JObj [(js ''score'', JNum 65), (js ''parameters'', JArr [])])
       (snd (displayResults rt mocked_response popup_start)))) = [] \<and>
     parametersList (snd (displayResults rt mocked_response popup_start)) =
       parametersList (snd (displayResults rt mocked_response
         (snd (displayResults rt mocked_response popup_start)))) \<and>
     (\<exists>icon name st.
        getProp https_param (js ''icon'') = Inr (JStr icon) \<and>
        getProp https_param (js ''name'') = Inr (JStr name) \<and>
        getProp https_param (js ''status'') = Inr (JStr st)) \<and>
     map (\<lambda>el. Inr (innerHTML el))
       (parametersList (snd (displayResults rt mocked_response popup_start))) =
       map (param_html rt) [https_param]"
proof
  fix rt
  let ?h = "tpl_head @ lock_icon @ tpl_icon_name @ js ''HTTPS'' @ tpl_name_class @
                 js ''safe'' @ tpl_class_label @ js ''Safe'' @ tpl_tail"
  let ?e = "JObj [(js ''score'', JNum 65), (js ''parameters'', JArr [])]"
  let ?s1 = "snd (displayResults rt mocked_response popup_start)"
  have sc: "getProp mocked_response (js ''score'') = Inr (JNum 65)" by (rule mocked_score)
  have n: "ToNumber rt (JNum 65) = Inr (Fin 65)" by (simp add: ToNumber_def)
  have g: "getProp mocked_response (js ''parameters'') = Inr (JArr [https_param])"
    by (rule mocked_parameters)
  have m: "map (param_html rt) [https_param] = map Inr [?h]"
    by (simp add: https_param_html)
  have se: "getProp ?e (js ''score'') = Inr (JNum 65)" by (simp add: getProp_def js_def)
  have ge: "getProp ?e (js ''parameters'') = Inr (JArr [])" by (simp add: getProp_def js_def)
  note th1 = displayResults_rebuilds_list [where analysis = mocked_response and sc = "JNum 65"
      and rt = rt and n = "Fin 65" and params = "[https_param]" and htmls = "[?h]"
      and s = popup_start and earlier = mocked_response and s' = ?s1]
  note th2 = displayResults_rebuilds_list [where analysis = ?e and sc = "JNum 65"
      and rt = rt and n = "Fin 65" and s = ?s1]
  from th1 sc n g m have 1: "fst (displayResults rt mocked_response popup_start) = Inr ()"
    by blast
  from th1 sc n g m have "parametersList (snd (displayResults rt mocked_response ?s1)) =
      map (\<lambda>h. \<lparr>className = js ''parameter-item'', innerHTML = h\<rparr>) [?h]"
    by blast
  then have 2: "length (parametersList (snd (displayResults rt mocked_response ?s1))) = 1"
    by simp
  from th2 se n ge have 3: "parametersList (snd (displayResults rt ?e ?s1)) = []"
    by blast
  from th1 sc n have 4: "parametersList (snd (displayResults rt mocked_response popup_start)) =
      parametersList (snd (displayResults rt mocked_response ?s1))"
    by blast
  have ty: "\<exists>icon name st.
        getProp https_param (js ''icon'') = Inr (JStr icon) \<and>
        getProp https_param (js ''name'') = Inr (JStr name) \<and>
        getProp https_param (js ''status'') = Inr (JStr st)"
    by (simp add: https_param_def getProp_def js_def)
  then have tys: "\<forall>p \<in> set [https_param]. \<exists>icon name st.
        getProp p (js ''icon'') = Inr (JStr icon) \<and>
        getProp p (js ''name'') = Inr (JStr name) \<and>
        getProp p (js ''status'') = Inr (JStr st)"
    by simp
  note th3 = displayResults_rebuilds_list [where analysis = mocked_response and x = 65
      and rt = rt and params = "[https_param]" and s = popup_start]
  from th3 sc g tys have 5: "map (\<lambda>el. Inr (innerHTML el))
       (parametersList (snd (displayResults rt mocked_response popup_start))) =
       map (param_html rt) [https_param]"
    by blast
  from sc n g m 1 2 se ge 3 4 ty 5
  show "(getProp mocked_response (js ''score'') = Inr (JNum 65) \<and>
      ToNumber rt (JNum 65) = Inr (Fin 65) \<and>
      getProp mocked_response (js ''parameters'') = Inr (JArr [https_param]) \<and>
      map (param_html rt) [https_param] = map Inr [?h]) \<and>
     fst (displayResults rt mocked_response popup_start) = Inr () \<and>
     length (parametersList (snd (displayResults rt mocked_response ?s1))) = 1 \<and>
     (getProp ?e (js ''score'') = Inr (JNum 65) \<and>
      getProp ?e (js ''parameters'') = Inr (JArr [])) \<and>
     parametersList (snd (displayResults rt ?e ?s1)) = [] \<and>
     parametersList (snd (displayResults rt mocked_response popup_start)) =
       parametersList (snd (displayResults rt mocked_response ?s1)) \<and>
     (\<exists>icon name st.
        getProp https_param (js ''icon'') = Inr (JStr icon) \<and>
        getProp https_param (js ''name'') = Inr (JStr name) \<and>
        getProp https_param (js ''status'') = Inr (JStr st)) \<and>
     map (\<lambda>el. Inr (innerHTML el))
       (parametersList (snd (displayResults rt mocked_response popup_start))) =
       map (param_html rt) [https_param]"
    by blast
qed

text \<open>
  Claim C6. For a parameter whose icon, name and status are strings, the markup
  of its row is the template with the icon and the name inserted as they are,
  the status as it is in the class name, and as label the status with its
  first code unit upper-cased (an ASCII lower-case letter becomes the
  upper-case one). For the URL \<open>http://test.com\<close> and the response with score 65
  and the one parameter padlock, \<open>HTTPS\<close>, \<open>safe\<close>, the popup shows \<open>7/10\<close>,
  a width of \<open>70%\<close> and one row with the name \<open>HTTPS\<close> and the label \<open>Safe\<close>.
\<close>

theorem param_rendering:
  "(getProp param (js ''icon'') = Inr (JStr icon) \<and>
    getProp param (js ''name'') = Inr (JStr name) \<and>
    getProp param (js ''status'') = Inr (JStr st) \<longrightarrow>
      param_html rt param =
        Inr (tpl_head @ icon @ tpl_icon_name @ name @ tpl_name_class @ st @ tpl_class_label @
             (case st of [] \<Rightarrow> [] | c # cs \<Rightarrow> toUpperCase1 rt c @ cs) @ tpl_tail)) \<and>
   (0x61 \<le> c \<and> c \<le> 0x7A \<longrightarrow> toUpperCase1 rt c = [c - 0x20]) \<and>
   (trim (urlInput_value s) = js ''http://test.com'' \<and>
    net (fetch_request (js ''http://test.com'')) = Resolved r \<and> ok r \<and>
    json_body r = Inr mocked_response \<longrightarrow>
      scoreValue_textContent (handleAnalyze rt net s) = js ''7/10'' \<and>
      progressFill_width (handleAnalyze rt net s) = js ''70%'' \<and>
      parametersList (handleAnalyze rt net s) =
        [\<lparr>className = js ''parameter-item'',
          innerHTML = tpl_head @ lock_icon @ tpl_icon_name @ js ''HTTPS'' @
            tpl_name_class @ js ''safe'' @ tpl_class_label @ js ''Safe'' @ tpl_tail\<rparr>])"
proof (intro conjI impI)
  assume "getProp param (js ''icon'') = Inr (JStr icon) \<and>
    getProp param (js ''name'') = Inr (JStr name) \<and>
    getProp param (js ''status'') = Inr (JStr st)"
  then show "param_html rt param =
        Inr (tpl_head @ icon @ tpl_icon_name @ name @ tpl_name_class @ st @ tpl_class_label @
             (case st of [] \<Rightarrow> [] | c # cs \<Rightarrow> toUpperCase1 rt c @ cs) @ tpl_tail)"
    using param_html_strings by blast
next
  assume "0x61 \<le> c \<and> c \<le> 0x7A"
  then show "toUpperCase1 rt c = [c - 0x20]" by (simp add: toUpperCase1_def)
next
  assume h: "trim (urlInput_value s) = js ''http://test.com'' \<and>
    net (fetch_request (js ''http://test.com'')) = Resolved r \<and> ok r \<and>
    json_body r = Inr mocked_response"
  have ne: "js ''http://test.com'' \<noteq> []" by (simp add: js_def)
  with h have b: "handleAnalyze_begin s =
     (Some (fetch_request (js ''http://test.com'')),
      (showLoading True s)\<lparr>requests := requests s @ [fetch_request (js ''http://test.com'')]\<rparr>)"
    using handleAnalyze_begin_nonempty [of s] by simp
  let ?s1 = "(showLoading True s)\<lparr>requests := requests s @ [fetch_request (js ''http://test.com'')]\<rparr>"
  have p: "performAnalysis_resume (Resolved r) ?s1 = (Inr mocked_response, ?s1)"
    using h by (simp add: performAnalysis_resume_def)
  have run: "handleAnalyze rt net s =
     showLoading False (expandPopup (snd (displayResults rt mocked_response ?s1)))"
    using h b p
    by (simp add: handleAnalyze_def handleAnalyze_resume_def handleAnalyze_try_def
        displayResults_mocked)
  show "scoreValue_textContent (handleAnalyze rt net s) = js ''7/10''"
    by (simp add: run displayResults_mocked showLoading_def expandPopup_def)
  show "progressFill_width (handleAnalyze rt net s) = js ''70%''"
    by (simp add: run displayResults_mocked showLoading_def expandPopup_def)
  show "parametersList (handleAnalyze rt net s) =
        [\<lparr>className = js ''parameter-item'',
          innerHTML = tpl_head @ lock_icon @ tpl_icon_name @ js ''HTTPS'' @
            tpl_name_class @ js ''safe'' @ tpl_class_label @ js ''Safe'' @ tpl_tail\<rparr>]"
    by (simp add: run displayResults_mocked showLoading_def expandPopup_def)
qed

theorem param_rendering_witness:
  "\<forall>rt.
     (getProp https_param (js ''icon'') = Inr (JStr lock_icon) \<and>
      getProp https_param (js ''name'') = Inr (JStr (js ''HTTPS'')) \<and>
      getProp https_param (js ''status'') = Inr (JStr (js ''safe''))) \<and>
     param_html rt https_param =
       Inr (tpl_head @ lock_icon @ tpl_icon_name @ js ''HTTPS'' @ tpl_name_class @ js ''safe'' @
            tpl_class_label @ js ''Safe'' @ tpl_tail) \<and>
     ((0x61 :: codeunit) \<le> 0x73 \<and> (0x73 :: codeunit) \<le> 0x7A) \<and>
     toUpperCase1 rt 0x73 = [0x53] \<and>
     (trim (urlInput_value (popup_start\<lparr>urlInput_value := js ''http://test.com''\<rparr>)) =
        js ''http://test.com'' \<and>
      ok (success_with mocked_response) \<and>
      json_body (success_with mocked_response) = Inr mocked_response) \<and>
     scoreValue_textContent (handleAnalyze rt (\<lambda>req. Resolved (success_with mocked_response))
       (popup_start\<lparr>urlInput_value := js ''http://test.com''\<rparr>)) = js ''7/10'' \<and>
     progressFill_width (handleAnalyze rt (\<lambda>req. Resolved (success_with mocked_response))
       (popup_start\<lparr>urlInput_value := js ''http://test.com''\<rparr>)) = js ''70%'' \<and>
     length (parametersList (handleAnalyze rt (\<lambda>req. Resolved (success_with mocked_response))
       (popup_start\<lparr>urlInput_value := js ''http://test.com''\<rparr>))) = 1"
proof (intro allI)
  fix rt
  let ?s = "popup_start\<lparr>urlInput_value := js ''http://test.com''\<rparr>"
  let ?net = "\<lambda>req :: request. Resolved (success_with mocked_response)"
  have g: "getProp https_param (js ''icon'') = Inr (JStr lock_icon) \<and>
      getProp https_param (js ''name'') = Inr (JStr (js ''HTTPS'')) \<and>
      getProp https_param (js ''status'') = Inr (JStr (js ''safe''))"
    by (simp add: https_param_def getProp_def js_def)
  have cap: "(case js ''safe'' of [] \<Rightarrow> [] | c # cs \<Rightarrow> toUpperCase1 rt c @ cs) = js ''Safe''"
    by (simp add: js_def toUpperCase1_def)
  have c: "(0x61 :: codeunit) \<le> 0x73 \<and> (0x73 :: codeunit) \<le> 0x7A" by simp
  have t: "trim (urlInput_value ?s) = js ''http://test.com''" by (simp add: trim_test_com)
  have r: "ok (success_with mocked_response) \<and>
      json_body (success_with mocked_response) = Inr mocked_response"
    by (simp add: success_with_def ok_def)
  note th = param_rendering [where param = https_param and icon = lock_icon
      and name = "js ''HTTPS''" and st = "js ''safe''" and rt = rt and c = "0x73" and s = ?s
      and net = ?net and r = "success_with mocked_response"]
  from th g have 1: "param_html rt https_param =
       Inr (tpl_head @ lock_icon @ tpl_icon_name @ js ''HTTPS'' @ tpl_name_class @ js ''safe'' @
            tpl_class_label @ js ''Safe'' @ tpl_tail)"
    using cap by simp
  from th c have 2: "toUpperCase1 rt 0x73 = [0x53]" by simp
  from th t r have 3: "scoreValue_textContent (handleAnalyze rt ?net ?s) = js ''7/10'' \<and>
      progressFill_width (handleAnalyze rt ?net ?s) = js ''70%'' \<and>
      length (parametersList (handleAnalyze rt ?net ?s)) = 1"
    by simp
  from g 1 c 2 t r 3 show "(getProp https_param (js ''icon'') = Inr (JStr lock_icon) \<and>
      getProp https_param (js ''name'') = Inr (JStr (js ''HTTPS'')) \<and>
      getProp https_param (js ''status'') = Inr (JStr (js ''safe''))) \<and>
     param_html rt https_param =
       Inr (tpl_head @ lock_icon @ tpl_icon_name @ js ''HTTPS'' @ tpl_name_class @ js ''safe'' @
            tpl_class_label @ js ''Safe'' @ tpl_tail) \<and>
     ((0x61 :: codeunit) \<le> 0x73 \<and> (0x73 :: codeunit) \<le> 0x7A) \<and>
     toUpperCase1 rt 0x73 = [0x53] \<and>
     (trim (urlInput_value ?s) = js ''http://test.com'' \<and>
      ok (success_with mocked_response) \<and>
      json_body (success_with mocked_response) = Inr mocked_response) \<and>
     scoreValue_textContent (handleAnalyze rt ?net ?s) = js ''7/10'' \<and>
     progressFill_width (handleAnalyze rt ?net ?s) = js ''70%'' \<and>
     length (parametersList (handleAnalyze rt ?net ?s)) = 1"
    by blast
qed

text \<open>
  Claim C10. When \<^verbatim>\<open>displayResults\<close> throws on the payload of a successful
  response, the call shows \<open>Analysis failed. Please try again.\<close> and its final
  step hides the loading indicator, shows the button text and enables the
  trigger: so for the continuation of a call from any state, and so for a
  whole call, which has shown the indicator before. Whether
  \<^verbatim>\<open>displayResults\<close> throws does not depend on the state. It throws a
  TypeError on \<^verbatim>\<open>null\<close>, on a payload without \<open>parameters\<close>, on a parameter
  whose status is a number, on a score that is an object with a \<open>toString\<close>
  of its own, and on an icon that is such an object.
\<close>

theorem render_failure_caught:
  "(ok r \<and> json_body r = Inr analysis \<and> fst (displayResults rt analysis s) = Inl e \<longrightarrow>
      handleAnalyze_resume rt (Resolved r) s =
        showLoading False (showError (js ''Analysis failed. Please try again.'')
          (snd (displayResults rt analysis s))) \<and>
      alerts (handleAnalyze_resume rt (Resolved r) s) =
        alerts s @ [js ''Analysis failed. Please try again.''] \<and>
      loader_hidden (handleAnalyze_resume rt (Resolved r) s) \<and>
      \<not> btnText_hidden (handleAnalyze_resume rt (Resolved r) s) \<and>
      \<not> analyzeBtn_disabled (handleAnalyze_resume rt (Resolved r) s)) \<and>
   (trim (urlInput_value s) \<noteq> [] \<and>
    net (fetch_request (trim (urlInput_value s))) = Resolved r \<and>
    ok r \<and> json_body r = Inr analysis \<and> fst (displayResults rt analysis s) = Inl e \<longrightarrow>
      \<not> loader_hidden (snd (handleAnalyze_begin s)) \<and>
      alerts (handleAnalyze rt net s) =
        alerts s @ [js ''Analysis failed. Please try again.''] \<and>
      loader_hidden (handleAnalyze rt net s) \<and>
      \<not> btnText_hidden (handleAnalyze rt net s) \<and>
      \<not> analyzeBtn_disabled (handleAnalyze rt net s)) \<and>
   fst (displayResults rt analysis s) = fst (displayResults rt analysis s') \<and>
   fst (displayResults rt JNull s) = Inl TypeError \<and>
   fst (displayResults rt (JObj [(js ''score'', JNum 50)]) s) = Inl TypeError \<and>
   fst (displayResults rt
     (JObj [(js ''score'', JNum 50),
            (js ''parameters'', JArr [JObj [(js ''icon'', JStr lock_icon),
               (js ''name'', JStr (js ''HTTPS'')), (js ''status'', JNum 1)]])]) s) = Inl TypeError \<and>
   fst (displayResults rt
     (JObj [(js ''score'', JObj [(js ''toString'', JNum 1)]),
            (js ''parameters'', JArr [])]) s) = Inl TypeError \<and>
   fst (displayResults rt
     (JObj [(js ''score'', JNum 50),
            (js ''parameters'', JArr [JObj [(js ''icon'', JObj [(js ''toString'', JNull)]),
               (js ''name'', JStr (js ''HTTPS'')), (js ''status'', JStr (js ''safe''))]])]) s) =
     Inl TypeError"
proof -
  have resume: "handleAnalyze_resume rt (Resolved r) s =
        showLoading False (showError (js ''Analysis failed. Please try again.'')
          (snd (displayResults rt analysis s))) \<and>
      alerts (handleAnalyze_resume rt (Resolved r) s) =
        alerts s @ [js ''Analysis failed. Please try again.''] \<and>
      loader_hidden (handleAnalyze_resume rt (Resolved r) s) \<and>
      \<not> btnText_hidden (handleAnalyze_resume rt (Resolved r) s) \<and>
      \<not> analyzeBtn_disabled (handleAnalyze_resume rt (Resolved r) s)"
    if h: "ok r" "json_body r = Inr analysis" "fst (displayResults rt analysis s) = Inl e"
    for s
  proof -
    from h have p: "performAnalysis_resume (Resolved r) s = (Inr analysis, s)"
      by (simp add: performAnalysis_resume_def)
    obtain s2 where d: "displayResults rt analysis s = (Inl e, s2)"
      using h(3) by (cases "displayResults rt analysis s") auto
    have t: "handleAnalyze_resume rt (Resolved r) s =
        showLoading False (showError (js ''Analysis failed. Please try again.'')
          (snd (displayResults rt analysis s)))"
      by (simp add: handleAnalyze_resume_def handleAnalyze_try_def p d)
    have "alerts (handleAnalyze_resume rt (Resolved r) s) =
        alerts s @ [js ''Analysis failed. Please try again.'']"
      by (simp add: t showLoading_def showError_def displayResults_keeps)
    moreover have "loader_hidden (handleAnalyze_resume rt (Resolved r) s)"
      "\<not> btnText_hidden (handleAnalyze_resume rt (Resolved r) s)"
      "\<not> analyzeBtn_disabled (handleAnalyze_resume rt (Resolved r) s)"
      by (simp_all add: handleAnalyze_resume_def showLoading_def)
    ultimately show ?thesis using t by blast
  qed
  have whole: "\<not> loader_hidden (snd (handleAnalyze_begin s)) \<and>
      alerts (handleAnalyze rt net s) =
        alerts s @ [js ''Analysis failed. Please try again.''] \<and>
      loader_hidden (handleAnalyze rt net s) \<and>
      \<not> btnText_hidden (handleAnalyze rt net s) \<and>
      \<not> analyzeBtn_disabled (handleAnalyze rt net s)"
    if ne: "trim (urlInput_value s) \<noteq> []"
      and net: "net (fetch_request (trim (urlInput_value s))) = Resolved r"
      and h: "ok r" "json_body r = Inr analysis" "fst (displayResults rt analysis s) = Inl e"
  proof -
    let ?s1 = "(showLoading True s)\<lparr>requests :=
        requests s @ [fetch_request (trim (urlInput_value s))]\<rparr>"
    have b: "handleAnalyze_begin s = (Some (fetch_request (trim (urlInput_value s))), ?s1)"
      by (rule handleAnalyze_begin_nonempty [OF ne])
    have run: "handleAnalyze rt net s = handleAnalyze_resume rt (Resolved r) ?s1"
      by (simp add: handleAnalyze_def b net)
    have d: "fst (displayResults rt analysis ?s1) = Inl e"
      using h(3) displayResults_outcome [of rt analysis ?s1 s] by simp
    have shown: "\<not> loader_hidden (snd (handleAnalyze_begin s))"
      by (simp add: b showLoading_def)
    have al: "alerts ?s1 = alerts s" by (simp add: showLoading_def)
    from resume [OF h(1) h(2) d]
    have "alerts (handleAnalyze_resume rt (Resolved r) ?s1) =
          alerts ?s1 @ [js ''Analysis failed. Please try again.'']"
      and "loader_hidden (handleAnalyze_resume rt (Resolved r) ?s1)"
      and "\<not> btnText_hidden (handleAnalyze_resume rt (Resolved r) ?s1)"
      and "\<not> analyzeBtn_disabled (handleAnalyze_resume rt (Resolved r) ?s1)"
      by blast+
    with shown al show ?thesis unfolding run by simp
  qed
  have null: "fst (displayResults rt JNull s) = Inl TypeError"
    by (simp add: displayResults_def getProp_def)
  have missing: "fst (displayResults rt (JObj [(js ''score'', JNum 50)]) s) = Inl TypeError"
    by (simp add: displayResults_def getProp_def js_def Let_def ToNumber_def)
  have number_status: "fst (displayResults rt
     (JObj [(js ''score'', JNum 50),
            (js ''parameters'', JArr [JObj [(js ''icon'', JStr lock_icon),
               (js ''name'', JStr (js ''HTTPS'')), (js ''status'', JNum 1)]])]) s) = Inl TypeError"
    by (simp add: displayResults_def getProp_def js_def Let_def ToNumber_def param_html_def)
  have object_score: "fst (displayResults rt
     (JObj [(js ''score'', JObj [(js ''toString'', JNum 1)]),
            (js ''parameters'', JArr [])]) s) = Inl TypeError"
    by (simp add: displayResults_def getProp_def js_def ToNumber_def)
  have object_icon: "fst (displayResults rt
     (JObj [(js ''score'', JNum 50),
            (js ''parameters'', JArr [JObj [(js ''icon'', JObj [(js ''toString'', JNull)]),
               (js ''name'', JStr (js ''HTTPS'')), (js ''status'', JStr (js ''safe''))]])]) s) =
     Inl TypeError"
    by (simp add: displayResults_def getProp_def js_def Let_def ToNumber_def param_html_def)
  from resume whole displayResults_outcome [of rt analysis s s'] null missing number_status
    object_score object_icon
  show ?thesis by blast
qed

theorem render_failure_caught_witness:
  "\<forall>rt.
     (trim (urlInput_value (popup_start\<lparr>urlInput_value := js ''example.com''\<rparr>)) \<noteq> [] \<and>
      ok (success_with (JObj [(js ''score'', JObj [(js ''toString'', JNum 1)]),
            (js ''parameters'', JArr [])])) \<and>
      json_body (success_with (JObj [(js ''score'', JObj [(js ''toString'', JNum 1)]),
            (js ''parameters'', JArr [])])) =
        Inr (JObj [(js ''score'', JObj [(js ''toString'', JNum 1)]),
            (js ''parameters'', JArr [])]) \<and>
      fst (displayResults rt (JObj [(js ''score'', JObj [(js ''toString'', JNum 1)]),
            (js ''parameters'', JArr [])])
          (popup_start\<lparr>urlInput_value := js ''example.com''\<rparr>)) = Inl TypeError) \<and>
     \<not> loader_hidden (snd (handleAnalyze_begin
        (popup_start\<lparr>urlInput_value := js ''example.com''\<rparr>))) \<and>
     alerts (handleAnalyze rt
        (\<lambda>req. Resolved (success_with (JObj [(js ''score'', JObj [(js ''toString'', JNum 1)]),
            (js ''parameters'', JArr [])])))
        (popup_start\<lparr>urlInput_value := js ''example.com''\<rparr>)) =
       [js ''Analysis failed. Please try again.''] \<and>
     loader_hidden (handleAnalyze rt
        (\<lambda>req. Resolved (success_with (JObj [(js ''score'', JObj [(js ''toString'', JNum 1)]),
            (js ''parameters'', JArr [])])))
        (popup_start\<lparr>urlInput_value := js ''example.com''\<rparr>)) \<and>
     loader_hidden (handleAnalyze_resume rt
        (Resolved (success_with (JObj [(js ''score'', JObj [(js ''toString'', JNum 1)]),
            (js ''parameters'', JArr [])])))
        (snd (handleAnalyze_begin (popup_start\<lparr>urlInput_value := js ''example.com''\<rparr>))))"
proof (intro allI)
  fix rt
  let ?a = "JObj [(js ''score'', JObj [(js ''toString'', JNum 1)]), (js ''parameters'', JArr [])]"
  let ?s = "popup_start\<lparr>urlInput_value := js ''example.com''\<rparr>"
  let ?s1 = "snd (handleAnalyze_begin ?s)"
  let ?net = "\<lambda>req :: request. Resolved (success_with ?a)"
  have t: "trim (urlInput_value ?s) = js ''example.com''" by (simp add: trim_samples)
  have "js ''example.com'' \<noteq> []" by (simp add: js_def)
  with t have ne: "trim (urlInput_value ?s) \<noteq> []" by simp
  have h: "ok (success_with ?a) \<and> json_body (success_with ?a) = Inr ?a"
    by (simp add: success_with_def ok_def)
  note th = render_failure_caught [where r = "success_with ?a" and analysis = ?a and rt = rt
      and s = ?s and e = TypeError and net = ?net]
  note th1 = render_failure_caught [where r = "success_with ?a" and analysis = ?a and rt = rt
      and s = ?s1 and e = TypeError]
  from th have d: "fst (displayResults rt ?a ?s) = Inl TypeError" by blast
  from th1 have d1: "fst (displayResults rt ?a ?s1) = Inl TypeError" by blast
  from th ne h d have 1: "\<not> loader_hidden ?s1" by blast
  from th ne h d have "alerts (handleAnalyze rt ?net ?s) =
      alerts ?s @ [js ''Analysis failed. Please try again.'']"
    by blast
  then have 2: "alerts (handleAnalyze rt ?net ?s) = [js ''Analysis failed. Please try again.'']"
    by (simp add: popup_start_def)
  from th ne h d have 3: "loader_hidden (handleAnalyze rt ?net ?s)" by blast
  from th1 h d1 have 4: "loader_hidden (handleAnalyze_resume rt (Resolved (success_with ?a)) ?s1)"
    by blast
  from ne h d 1 2 3 4
  show "(trim (urlInput_value ?s) \<noteq> [] \<and> ok (success_with ?a) \<and>
      json_body (success_with ?a) = Inr ?a \<and>
      fst (displayResults rt ?a ?s) = Inl TypeError) \<and>
     \<not> loader_hidden ?s1 \<and>
     alerts (handleAnalyze rt ?net ?s) = [js ''Analysis failed. Please try again.''] \<and>
     loader_hidden (handleAnalyze rt ?net ?s) \<and>
     loader_hidden (handleAnalyze_resume rt (Resolved (success_with ?a)) ?s1)"
    by blast
qed

section \<open>Auto-analysis on load\<close>

text \<open>
  Claim C8. When the active tab has a URL (a string that is not blank) and the
  stored \<open>autoAnalyze\<close> is not \<^verbatim>\<open>false\<close>, in particular when it is \<^verbatim>\<open>true\<close> or
  absent, loading the popup fills the URL in and schedules \<^verbatim>\<open>handleAnalyze\<close>
  with a delay of 500, sending nothing yet; the timer, when it fires, runs the
  analysis of that URL. When the stored value is
  \<^verbatim>\<open>false\<close>, nothing is scheduled and nothing is sent; when there is no tab, no
  URL or the query fails, nothing is filled in or scheduled.
\<close>

theorem autoFillURL_schedules:
  "(tab_url t = Some u \<and> trim u \<noteq> [] \<and> store (js ''autoAnalyze'') \<noteq> Some (JBool False) \<longrightarrow>
      timers (autoFillURL (Tabs (t # ts)) store s) = timers s @ [(500, Call_handleAnalyze)] \<and>
      urlInput_value (autoFillURL (Tabs (t # ts)) store s) = u \<and>
      requests (autoFillURL (Tabs (t # ts)) store s) = requests s) \<and>
   (store (js ''autoAnalyze'') = Some (JBool False) \<longrightarrow>
      timers (autoFillURL q store s) = timers s \<and>
      requests (autoFillURL q store s) = requests s) \<and>
   (tab_url t = None \<or> tab_url t = Some [] \<longrightarrow> autoFillURL (Tabs (t # ts)) store s = s) \<and>
   autoFillURL (Tabs []) store s = s \<and>
   autoFillURL (Query_failed e) store s = console_error e s \<and>
   (tab_url t = Some u \<and> trim u \<noteq> [] \<and> store (js ''autoAnalyze'') \<noteq> Some (JBool False) \<and>
    timers s = [] \<longrightarrow>
      requests (fire_timer rt net (autoFillURL (Tabs (t # ts)) store s)) =
        requests s @ [fetch_request (trim u)])"
proof (intro conjI impI)
  assume h: "tab_url t = Some u \<and> trim u \<noteq> [] \<and> store (js ''autoAnalyze'') \<noteq> Some (JBool False)"
  then have u: "u \<noteq> []" using trim_nonempty by blast
  with h have run: "autoFillURL (Tabs (t # ts)) store s =
      (validateInput (s\<lparr>urlInput_value := u\<rparr>))\<lparr>timers := timers s @ [(500, Call_handleAnalyze)]\<rparr>"
    by (simp add: autoFillURL_def autoFillURL_tabs_def autoFillURL_prefs_def validateInput_def Let_def)
  show "timers (autoFillURL (Tabs (t # ts)) store s) = timers s @ [(500, Call_handleAnalyze)]"
    by (simp add: run)
  show "urlInput_value (autoFillURL (Tabs (t # ts)) store s) = u"
    by (simp add: run validateInput_def Let_def)
  show "requests (autoFillURL (Tabs (t # ts)) store s) = requests s"
    by (simp add: run validateInput_def Let_def)
next
  assume h: "store (js ''autoAnalyze'') = Some (JBool False)"
  then show "timers (autoFillURL q store s) = timers s"
    by (auto simp: autoFillURL_def autoFillURL_tabs_def autoFillURL_prefs_def validateInput_def
        console_error_def Let_def split: tabs_result.splits list.splits option.splits)
  from h show "requests (autoFillURL q store s) = requests s"
    by (auto simp: autoFillURL_def autoFillURL_tabs_def autoFillURL_prefs_def validateInput_def
        console_error_def Let_def split: tabs_result.splits list.splits option.splits)
next
  assume "tab_url t = None \<or> tab_url t = Some []"
  then show "autoFillURL (Tabs (t # ts)) store s = s"
    by (auto simp: autoFillURL_def autoFillURL_tabs_def)
next
  show "autoFillURL (Tabs []) store s = s"
    by (simp add: autoFillURL_def autoFillURL_tabs_def)
  show "autoFillURL (Query_failed e) store s = console_error e s"
    by (simp add: autoFillURL_def autoFillURL_tabs_def)
next
  assume "tab_url t = Some u \<and> trim u \<noteq> [] \<and> store (js ''autoAnalyze'') \<noteq> Some (JBool False) \<and>
    timers s = []"
  then show "requests (fire_timer rt net (autoFillURL (Tabs (t # ts)) store s)) =
        requests s @ [fetch_request (trim u)]"
    using fire_scheduled [where store = store and t = t and u = u and s = s] by blast
qed

theorem autoFillURL_schedules_witness:
  "(tab_url \<lparr>tab_url = Some (js ''https://example.com/'')\<rparr> = Some (js ''https://example.com/'') \<and>
    trim (js ''https://example.com/'') \<noteq> [] \<and>
    Map.empty (js ''autoAnalyze'') \<noteq> Some (JBool False)) \<and>
   timers (autoFillURL (Tabs [\<lparr>tab_url = Some (js ''https://example.com/'')\<rparr>]) Map.empty
     popup_start) = [(500, Call_handleAnalyze)] \<and>
   [js ''autoAnalyze'' \<mapsto> JBool False] (js ''autoAnalyze'') = Some (JBool False) \<and>
   timers (autoFillURL (Tabs [\<lparr>tab_url = Some (js ''https://example.com/'')\<rparr>])
     [js ''autoAnalyze'' \<mapsto> JBool False] popup_start) = [] \<and>
   tab_url \<lparr>tab_url = None\<rparr> = None \<and>
   timers (autoFillURL (Tabs [\<lparr>tab_url = None\<rparr>]) Map.empty popup_start) = [] \<and>
   timers popup_start = [] \<and>
   (\<forall>rt net. requests (fire_timer rt net
      (autoFillURL (Tabs [\<lparr>tab_url = Some (js ''https://example.com/'')\<rparr>]) Map.empty
         popup_start)) = [fetch_request (js ''https://example.com/'')])"
proof -
  let ?t = "\<lparr>tab_url = Some (js ''https://example.com/'')\<rparr>"
  let ?off = "[js ''autoAnalyze'' \<mapsto> JBool False]"
  have u: "trim (js ''https://example.com/'') \<noteq> []"
    by (simp add: trim_samples) (simp add: js_def)
  have h1: "tab_url ?t = Some (js ''https://example.com/'') \<and>
    trim (js ''https://example.com/'') \<noteq> [] \<and>
    Map.empty (js ''autoAnalyze'') \<noteq> Some (JBool False)"
    using u by simp
  have h2: "?off (js ''autoAnalyze'') = Some (JBool False)" by simp
  have h3: "tab_url \<lparr>tab_url = None\<rparr> = None" by simp
  from h1 autoFillURL_schedules [where t = ?t and u = "js ''https://example.com/''"
      and store = Map.empty and ts = "[]" and s = popup_start]
  have "timers (autoFillURL (Tabs [?t]) Map.empty popup_start) =
      timers popup_start @ [(500, Call_handleAnalyze)]"
    by blast
  then have 1: "timers (autoFillURL (Tabs [?t]) Map.empty popup_start) = [(500, Call_handleAnalyze)]"
    by (simp add: popup_start_def)
  from h2 autoFillURL_schedules [where store = ?off and q = "Tabs [?t]" and s = popup_start]
  have "timers (autoFillURL (Tabs [?t]) ?off popup_start) = timers popup_start"
    by blast
  then have 2: "timers (autoFillURL (Tabs [?t]) ?off popup_start) = []"
    by (simp add: popup_start_def)
  from h3 autoFillURL_schedules [where t = "\<lparr>tab_url = None\<rparr>" and store = Map.empty
      and ts = "[]" and s = popup_start]
  have "autoFillURL (Tabs [\<lparr>tab_url = None\<rparr>]) Map.empty popup_start = popup_start"
    by blast
  then have 3: "timers (autoFillURL (Tabs [\<lparr>tab_url = None\<rparr>]) Map.empty popup_start) = []"
    by (simp add: popup_start_def)
  have h4: "timers popup_start = []" by (simp add: popup_start_def)
  have 4: "requests (fire_timer rt net (autoFillURL (Tabs [?t]) Map.empty popup_start)) =
      [fetch_request (js ''https://example.com/'')]" for rt net
  proof -
    from h1 h4 autoFillURL_schedules [where t = ?t and u = "js ''https://example.com/''"
      and store = Map.empty and ts = "[]" and s = popup_start and rt = rt and net = net]
    have "requests (fire_timer rt net (autoFillURL (Tabs [?t]) Map.empty popup_start)) =
        requests popup_start @ [fetch_request (trim (js ''https://example.com/''))]"
      by blast
    then show ?thesis by (simp add: popup_start_def trim_samples)
  qed
  from h1 1 h2 2 h3 3 h4 4 show ?thesis by blast
qed

end
